theory Spec2Isabelle
  imports Main
begin

section \<open>The pre-commit hook of golang-best-practices-check\<close>

text \<open>
  A shallow embedding of \<^verbatim>\<open>main.go\<close>: the functions \<^verbatim>\<open>main\<close> and \<^verbatim>\<open>queryLLM\<close>,
  the three structs they exchange, and the few functions of Go's standard library whose
  results decide a branch. Go strings are byte sequences, so a Go \<^verbatim>\<open>string\<close> and a
  \<^verbatim>\<open>[]byte\<close> are both a \<^typ>\<open>string\<close> here (a list of 8-bit characters). An
  \<^verbatim>\<open>error\<close> is the text its \<^verbatim>\<open>Error()\<close> method returns, which is all the program
  ever does with one (it prints it with \<^verbatim>\<open>%v\<close>).
\<close>

type_synonym go_error = string

abbreviation NL :: string where
  "NL \<equiv> [CHR 0x0A]"

subsection \<open>Standard library: strings, unicode/utf8, fmt\<close>

text \<open>
  \<^verbatim>\<open>strings.HasSuffix(s, suffix)\<close> is
  \<^verbatim>\<open>len(s) >= len(suffix) && s[len(s)-len(suffix):] == suffix\<close>.
\<close>

definition HasSuffix :: "string \<Rightarrow> string \<Rightarrow> bool" where
  "HasSuffix s suffix \<longleftrightarrow>
     length s \<ge> length suffix \<and> drop (length s - length suffix) s = suffix"

text \<open>
  \<^verbatim>\<open>utf8.RuneCountInString\<close>. The table \<^verbatim>\<open>first\<close> of package utf8 gives, for a lead
  byte, the length of the encoding it starts and the range its second byte must lie in
  (\<^verbatim>\<open>acceptRanges\<close>); \<open>None\<close> is the entry \<^verbatim>\<open>xx\<close> of an invalid lead byte.
\<close>

definition first :: "nat \<Rightarrow> (nat \<times> nat \<times> nat) option" where
  "first c =
     (if 0xC2 \<le> c \<and> c \<le> 0xDF then Some (2, 0x80, 0xBF)
      else if c = 0xE0 then Some (3, 0xA0, 0xBF)
      else if 0xE1 \<le> c \<and> c \<le> 0xEC then Some (3, 0x80, 0xBF)
      else if c = 0xED then Some (3, 0x80, 0x9F)
      else if 0xEE \<le> c \<and> c \<le> 0xEF then Some (3, 0x80, 0xBF)
      else if c = 0xF0 then Some (4, 0x90, 0xBF)
      else if 0xF1 \<le> c \<and> c \<le> 0xF3 then Some (4, 0x80, 0xBF)
      else if c = 0xF4 then Some (4, 0x80, 0x8F)
      else None)"

text \<open>
  One turn of the loop of \<^verbatim>\<open>RuneCountInString\<close>: the number of bytes by which the
  index \<^verbatim>\<open>i\<close> advances when the rest of the string is \<open>c # cs\<close>. An ASCII byte, an
  invalid lead byte, a truncated encoding and an encoding with a continuation byte out
  of range all advance by one byte.
\<close>

definition rune_step :: "char \<Rightarrow> string \<Rightarrow> nat" where
  "rune_step c cs =
     (if (of_char c :: nat) < 0x80 then 1
      else case first (of_char c) of
        None \<Rightarrow> 1
      | Some (n, lo, hi) \<Rightarrow>
          if Suc (length cs) < n then 1
          else if (of_char (cs ! 0) :: nat) < lo \<or> hi < (of_char (cs ! 0) :: nat) then 1
          else if n = 2 then 2
          else if (of_char (cs ! 1) :: nat) < 0x80 \<or> 0xBF < (of_char (cs ! 1) :: nat) then 1
          else if n = 3 then 3
          else if (of_char (cs ! 2) :: nat) < 0x80 \<or> 0xBF < (of_char (cs ! 2) :: nat) then 1
          else 4)"

function RuneCountInString :: "string \<Rightarrow> nat" where
  "RuneCountInString [] = 0"
| "RuneCountInString (c # cs) = Suc (RuneCountInString (drop (rune_step c cs - 1) cs))"
  by pat_completeness auto
termination
  by (relation "measure length") auto

text \<open>\<^verbatim>\<open>%d\<close> of a non-negative \<^verbatim>\<open>int\<close>: its decimal digits.\<close>

function itoa :: "nat \<Rightarrow> string" where
  "itoa n = (if n < 10 then [''0123456789'' ! n] else itoa (n div 10) @ [''0123456789'' ! (n mod 10)])"
  by pat_completeness auto
termination
  by (relation "measure id") auto

subsection \<open>The structs of main.go\<close>

record LLMResponse =
  FollowsBestPractices :: bool
  Suggestions :: string

record ollamaRequest =
  Model :: string
  Prompt :: string
  Format :: string
  System :: string
  Stream :: bool

record ollamaResponse =
  Response :: string

definition ollamaPort :: nat where
  "ollamaPort = 11435"

subsection \<open>Standard library: encoding/json, decoding into the two response structs\<close>

text \<open>
  \<^verbatim>\<open>json.Unmarshal\<close> first checks that its input is one well-formed JSON text and then
  stores the value it denotes into the Go value it was given. The first half (the
  grammar of JSON) is a parameter of the model, see \<open>json_parse\<close> below; the second half
  is modelled here on parsed values. A string value and an object key are the decoded
  Go strings; an object keeps its members in the order of the text, duplicates included.
\<close>

datatype json =
    JNull
  | JBool bool
  | JNumber string
  | JString string
  | JArray "json list"
  | JObject "(string \<times> json) list"

text \<open>The word \<^verbatim>\<open>UnmarshalTypeError\<close> uses for the JSON value it could not store.\<close>

fun json_kind :: "json \<Rightarrow> string" where
  "json_kind JNull = ''null''"
| "json_kind (JBool b) = ''bool''"
| "json_kind (JNumber n) = ''number''"
| "json_kind (JString s) = ''string''"
| "json_kind (JArray xs) = ''array''"
| "json_kind (JObject ms) = ''object''"

definition UnmarshalTypeError_value :: "json \<Rightarrow> string \<Rightarrow> go_error" where
  "UnmarshalTypeError_value j ty =
     ''json: cannot unmarshal '' @ json_kind j @ '' into Go value of type '' @ ty"

definition UnmarshalTypeError_field :: "json \<Rightarrow> string \<Rightarrow> string \<Rightarrow> string \<Rightarrow> go_error" where
  "UnmarshalTypeError_field j struct field ty =
     ''json: cannot unmarshal '' @ json_kind j @ '' into Go struct field '' @ struct @ ''.''
       @ field @ '' of type '' @ ty"

text \<open>
  Storing a JSON value into a \<^verbatim>\<open>bool\<close> or a \<^verbatim>\<open>string\<close> field: \<^verbatim>\<open>null\<close> leaves the field
  as it is, a value of the field's kind is stored, anything else is an
  \<^verbatim>\<open>UnmarshalTypeError\<close>.
\<close>

fun store_bool :: "string \<Rightarrow> string \<Rightarrow> json \<Rightarrow> bool \<Rightarrow> go_error + bool" where
  "store_bool struct field JNull old = Inr old"
| "store_bool struct field (JBool b) old = Inr b"
| "store_bool struct field j old = Inl (UnmarshalTypeError_field j struct field ''bool'')"

fun store_string :: "string \<Rightarrow> string \<Rightarrow> json \<Rightarrow> string \<Rightarrow> go_error + string" where
  "store_string struct field JNull old = Inr old"
| "store_string struct field (JString s) old = Inr s"
| "store_string struct field j old = Inl (UnmarshalTypeError_field j struct field ''string'')"

text \<open>
  A key of a JSON object names the struct field whose name it equals, or else the first
  field whose name it equals under Unicode simple case folding. The field names of
  this program are ASCII, and the only runes outside ASCII that fold to an ASCII letter
  are U+017F (long s, bytes C5 BF) and U+212A (Kelvin sign, bytes E2 84 AA): \<open>foldName\<close>
  maps those two and the ASCII lower-case letters to the upper-case letter and leaves
  every other byte alone.
\<close>

definition upper :: "char \<Rightarrow> char" where
  "upper c = (if 97 \<le> (of_char c :: nat) \<and> (of_char c :: nat) \<le> 122
              then char_of ((of_char c :: nat) - 32) else c)"

fun foldName :: "string \<Rightarrow> string" where
  "foldName (a # b # c # cs) =
     (if a = CHR 0xE2 \<and> b = CHR 0x84 \<and> c = CHR 0xAA then CHR ''K'' # foldName cs
      else if a = CHR 0xC5 \<and> b = CHR 0xBF then CHR ''S'' # foldName (c # cs)
      else upper a # foldName (b # c # cs))"
| "foldName [a, b] =
     (if a = CHR 0xC5 \<and> b = CHR 0xBF then [CHR ''S''] else upper a # foldName [b])"
| "foldName [a] = [upper a]"
| "foldName [] = []"

definition field_of_key :: "string list \<Rightarrow> string \<Rightarrow> string option" where
  "field_of_key names key =
     (if key \<in> set names then Some key
      else find (\<lambda>name. foldName name = foldName key) names)"

text \<open>
  The decoder keeps the first type error it meets (\<^verbatim>\<open>saveError\<close>), goes on decoding, and
  returns that error at the end.
\<close>

definition saveError :: "go_error option \<Rightarrow> go_error \<Rightarrow> go_error option" where
  "saveError saved err = (case saved of None \<Rightarrow> Some err | Some e \<Rightarrow> Some e)"

fun object_LLMResponse ::
  "(string \<times> json) list \<Rightarrow> LLMResponse \<times> go_error option \<Rightarrow> LLMResponse \<times> go_error option" where
  "object_LLMResponse [] st = st"
| "object_LLMResponse ((key, item) # members) (v, saved) =
     object_LLMResponse members
       (case field_of_key [''follows_best_practices'', ''suggestions''] key of
          None \<Rightarrow> (v, saved)
        | Some f \<Rightarrow>
            if f = ''follows_best_practices'' then
              (case store_bool ''LLMResponse'' f item (FollowsBestPractices v) of
                 Inl err \<Rightarrow> (v, saveError saved err)
               | Inr b \<Rightarrow> (v\<lparr>FollowsBestPractices := b\<rparr>, saved))
            else
              (case store_string ''LLMResponse'' f item (Suggestions v) of
                 Inl err \<Rightarrow> (v, saveError saved err)
               | Inr s \<Rightarrow> (v\<lparr>Suggestions := s\<rparr>, saved)))"

fun object_ollamaResponse ::
  "(string \<times> json) list \<Rightarrow> ollamaResponse \<times> go_error option \<Rightarrow> ollamaResponse \<times> go_error option" where
  "object_ollamaResponse [] st = st"
| "object_ollamaResponse ((key, item) # members) (v, saved) =
     object_ollamaResponse members
       (case field_of_key [''response''] key of
          None \<Rightarrow> (v, saved)
        | Some f \<Rightarrow>
            (case store_string ''ollamaResponse'' f item (Response v) of
               Inl err \<Rightarrow> (v, saveError saved err)
             | Inr s \<Rightarrow> (v\<lparr>Response := s\<rparr>, saved)))"

text \<open>
  Decoding a whole JSON value into a pointer to a zero-valued struct, as \<^verbatim>\<open>queryLLM\<close>
  does twice (\<^verbatim>\<open>&ollamaResponse{}\<close>, \<^verbatim>\<open>&LLMResponse{}\<close>): \<^verbatim>\<open>null\<close> leaves the struct as it
  is, an object is stored member by member, every other value is a type error.
\<close>

definition decode_LLMResponse :: "json \<Rightarrow> go_error + LLMResponse" where
  "decode_LLMResponse j =
     (case j of
        JNull \<Rightarrow> Inr \<lparr>FollowsBestPractices = False, Suggestions = []\<rparr>
      | JObject members \<Rightarrow>
          (case object_LLMResponse members
                  (\<lparr>FollowsBestPractices = False, Suggestions = []\<rparr>, None) of
             (v, None) \<Rightarrow> Inr v
           | (v, Some err) \<Rightarrow> Inl err)
      | _ \<Rightarrow> Inl (UnmarshalTypeError_value j ''main.LLMResponse''))"

definition decode_ollamaResponse :: "json \<Rightarrow> go_error + ollamaResponse" where
  "decode_ollamaResponse j =
     (case j of
        JNull \<Rightarrow> Inr \<lparr>Response = []\<rparr>
      | JObject members \<Rightarrow>
          (case object_ollamaResponse members (\<lparr>Response = []\<rparr>, None) of
             (v, None) \<Rightarrow> Inr v
           | (v, Some err) \<Rightarrow> Inl err)
      | _ \<Rightarrow> Inl (UnmarshalTypeError_value j ''main.ollamaResponse''))"

subsection \<open>The outside world\<close>

text \<open>
  What the program does to the outside, in the order it does it: one \<open>Stdout\<close> per call
  of \<^verbatim>\<open>fmt.Println\<close> or \<^verbatim>\<open>fmt.Printf\<close> with the text written, one \<open>FileRead\<close> per call of
  \<^verbatim>\<open>os.ReadFile\<close>, one \<open>HttpDo\<close> per call of \<^verbatim>\<open>client.Do\<close> with the request sent, and
  \<open>GoStartOllama\<close> for the statement \<^verbatim>\<open>go startOllama(ctx)\<close>. What the goroutine does
  (it runs \<^verbatim>\<open>ollama serve\<close> and prints the error of a failed run) happens concurrently
  and is not part of this trace.
\<close>

record http_request =
  Method :: string
  URL :: string
  Header :: "(string \<times> string) list"
  Body :: string

datatype event =
    Stdout string
  | FileRead string
  | HttpDo http_request
  | GoStartOllama

text \<open>
  The environment answers the calls that leave the program. Its state \<open>'w\<close> (the file
  system, the server) is threaded through the calls, so two reads of one path or two
  equal requests may be answered differently. \<open>client_Do\<close> stands for \<^verbatim>\<open>client.Do\<close>
  followed by \<^verbatim>\<open>io.ReadAll\<close> of the response body: \<open>Inl\<close> when \<^verbatim>\<open>Do\<close> fails, \<open>Inr (Inl e)\<close>
  when a response arrives and reading its body fails, \<open>Inr (Inr body)\<close> otherwise; every
  call is taken to return (the program sets no timeout). The last two fields are the
  JSON grammar, in both directions: \<open>json_encode\<close> is the text \<^verbatim>\<open>json.Marshal\<close> writes for a
  value (its escaping of strings included), and \<open>json_parse\<close> the value a text denotes, or
  the syntax error.
\<close>

record 'w env =
  os_ReadFile :: "string \<Rightarrow> 'w \<Rightarrow> (go_error + string) \<times> 'w"
  client_Do :: "http_request \<Rightarrow> 'w \<Rightarrow> (go_error + (go_error + string)) \<times> 'w"
  json_encode :: "json \<Rightarrow> go_error + string"
  json_parse :: "string \<Rightarrow> go_error + json"

text \<open>
  \<^verbatim>\<open>json.Marshal\<close> of an \<^verbatim>\<open>ollamaRequest\<close> writes the object whose members are the fields
  of the struct, in the order of their declaration, each under the name its \<^verbatim>\<open>json\<close> tag
  gives it.
\<close>

definition json_Marshal :: "'w env \<Rightarrow> ollamaRequest \<Rightarrow> go_error + string" where
  "json_Marshal env r =
     json_encode env
       (JObject
          [(''model'', JString (Model r)),
           (''prompt'', JString (Prompt r)),
           (''format'', JString (Format r)),
           (''system'', JString (System r)),
           (''stream'', JBool (Stream r))])"

definition Unmarshal_ollamaResponse :: "'w env \<Rightarrow> string \<Rightarrow> go_error + ollamaResponse" where
  "Unmarshal_ollamaResponse env data =
     (case json_parse env data of
        Inl err \<Rightarrow> Inl err
      | Inr j \<Rightarrow> decode_ollamaResponse j)"

definition Unmarshal_LLMResponse :: "'w env \<Rightarrow> string \<Rightarrow> go_error + LLMResponse" where
  "Unmarshal_LLMResponse env data =
     (case json_parse env data of
        Inl err \<Rightarrow> Inl err
      | Inr j \<Rightarrow> decode_LLMResponse j)"

text \<open>
  \<^verbatim>\<open>http.NewRequest\<close> fails on a method that is not a token and on a URL that does not
  parse; with the constant method and the URL built below it returns the request.
\<close>

definition NewRequest :: "string \<Rightarrow> string \<Rightarrow> string \<Rightarrow> go_error + http_request" where
  "NewRequest method url body = Inr \<lparr>Method = method, URL = url, Header = [], Body = body\<rparr>"

definition Header_Add :: "http_request \<Rightarrow> string \<Rightarrow> string \<Rightarrow> http_request" where
  "Header_Add req key val = req\<lparr>Header := Header req @ [(key, val)]\<rparr>"

subsection \<open>queryLLM\<close>

definition system_prompt :: string where
  "system_prompt =
     ''You check go files given for best practices following the official style guide. You will reply in json format. Only reply with the json output and nothing more. The json response should have this format:'' @ [CHR 0x0A] @
     [CHR 0x09, CHR 0x09, CHR 0x09] @ ''A '' @ [CHR 0x22] @ ''follows_best_practices'' @ [CHR 0x22] @ '' boolean fields and a '' @ [CHR 0x22] @ ''suggestions'' @ [CHR 0x22] @ '' string field. '' @ [CHR 0x0A] @
     [CHR 0x09, CHR 0x09, CHR 0x09] @ ''Example:'' @ [CHR 0x0A] @
     [CHR 0x09, CHR 0x09, CHR 0x09] @ ''{'' @ [CHR 0x0A] @
     [CHR 0x09, CHR 0x09, CHR 0x09, CHR 0x09, CHR 0x22] @ ''follows_best_practices'' @ [CHR 0x22] @ '': false,'' @ [CHR 0x0A] @
     [CHR 0x09, CHR 0x09, CHR 0x09, CHR 0x09, CHR 0x22] @ ''suggestions'' @ [CHR 0x22] @ '': '' @ [CHR 0x22] @ ''The function name ParseYAMLConfig does not follow the Go best practices as it'' @ [CHR 0x27] @ ''s repeating the package name bla bla bla...'' @ [CHR 0x22, CHR 0x0A] @
     [CHR 0x09, CHR 0x09, CHR 0x09] @ ''}'' @ [CHR 0x0A] @
     [CHR 0x09] @ ''    Do NOT include any other field in the json response.'' @ [CHR 0x0A] @
     [CHR 0x09, CHR 0x09] @ ''Suggestions need to be as short and concise as possible, there can be no suggestions if the file appears to be following the best practices. But always indicate suggestions if the file does not follow the best practices.'' @ [CHR 0x0A] @
     [CHR 0x09, CHR 0x09] @ ''You are only given files that have been modified in the current commit so you will lack some context, do not criticize the lack of context. Only check for the best practices that you can observe in the file you are checking at the moment.'' @ [CHR 0x0A] @
     [CHR 0x09, CHR 0x09] @ ''Do not criticize whether the logic makes sense only check for go best practices. You will reply with a json response.'' @ [CHR 0x0A] @
     [CHR 0x09, CHR 0x09]"

definition queryLLM ::
  "'w env \<Rightarrow> string \<Rightarrow> string \<Rightarrow> 'w \<Rightarrow> (go_error + LLMResponse) \<times> event list \<times> 'w" where
  "queryLLM env filename content w =
     (let llmRequest =
            \<lparr>Model = ''qwen2.5-coder:7b'',
             Prompt = ''File to check:'' @ NL @ ''Filename: '' @ filename @ NL
                        @ ''Content:'' @ NL @ content,
             Format = ''json'',
             System = system_prompt,
             Stream = False\<rparr>
      in case json_Marshal env llmRequest of
        Inl err \<Rightarrow> (Inl (''error marshalling request: '' @ err), [], w)
      | Inr requestBody \<Rightarrow>
          (case NewRequest ''POST'' (''http://127.0.0.1:'' @ itoa ollamaPort @ ''/api/generate'')
                  requestBody of
             Inl err \<Rightarrow> (Inl (''error creating request: '' @ err), [], w)
           | Inr req0 \<Rightarrow>
               (let req = Header_Add req0 ''Content-Type'' ''application/json''
                in case client_Do env req w of
                  (Inl err, w') \<Rightarrow> (Inl ''error running ollama command'', [HttpDo req], w')
                | (Inr (Inl err), w') \<Rightarrow>
                    (Inl (''error reading response body '' @ err), [HttpDo req], w')
                | (Inr (Inr body), w') \<Rightarrow>
                    (case Unmarshal_ollamaResponse env body of
                       Inl err \<Rightarrow>
                         (Inl (''error unmarshalling response: '' @ err), [HttpDo req], w')
                     | Inr oResp \<Rightarrow>
                         (case Unmarshal_LLMResponse env (Response oResp) of
                            Inl err \<Rightarrow>
                              (Inl (''error unmarshalling LLM response: '' @ err),
                               [HttpDo req], w')
                          | Inr llmResponse \<Rightarrow> (Inr llmResponse, [HttpDo req], w'))))))"

subsection \<open>main\<close>

text \<open>
  The body of the \<^verbatim>\<open>for\<close> loop for one file: the flag \<^verbatim>\<open>warn\<close> and the world before, the
  flag, the events of this turn and the world after. Every \<^verbatim>\<open>continue\<close> is a branch
  that returns the flag unchanged.
\<close>

definition loop_body :: "'w env \<Rightarrow> string \<Rightarrow> bool \<Rightarrow> 'w \<Rightarrow> bool \<times> event list \<times> 'w" where
  "loop_body env file warn w =
     (if \<not> HasSuffix file ''.go'' then (warn, [], w)
      else case os_ReadFile env file w of
        (Inl err, w1) \<Rightarrow>
          (warn, [FileRead file, Stdout (''Error reading file '' @ file @ '': '' @ err @ NL)], w1)
      | (Inr content, w1) \<Rightarrow>
          if RuneCountInString content > 8000 then
            (warn,
             [FileRead file,
              Stdout (''Skipping file '' @ file @ '' as it has more than 8000 characters'' @ NL)],
             w1)
          else
            (case queryLLM env file content w1 of
               (Inl err, evs, w2) \<Rightarrow>
                 (warn,
                  FileRead file # evs @
                    [Stdout (''Error querying LLM for file '' @ file @ '': '' @ err @ NL)],
                  w2)
             | (Inr llmResponse, evs, w2) \<Rightarrow>
                 if \<not> FollowsBestPractices llmResponse then
                   (True,
                    FileRead file # evs @
                      [Stdout (NL @ ''File: '' @ file @ '' does not follow best practices:'' @ NL),
                       Stdout (''Suggestions: '' @ Suggestions llmResponse @ NL),
                       Stdout (''--------------------------------------------'' @ NL)],
                    w2)
                 else (warn, FileRead file # evs, w2)))"

fun loop :: "'w env \<Rightarrow> string list \<Rightarrow> bool \<Rightarrow> 'w \<Rightarrow> bool \<times> event list \<times> 'w" where
  "loop env [] warn w = (warn, [], w)"
| "loop env (file # files) warn w =
     (case loop_body env file warn w of
        (warn1, evs1, w1) \<Rightarrow>
          (case loop env files warn1 w1 of
             (warn2, evs2, w2) \<Rightarrow> (warn2, evs1 @ evs2, w2)))"

definition summary :: "bool \<Rightarrow> event" where
  "summary warn =
     (if warn then
        Stdout (NL @ ''Warning: Some files do not follow Golang best practices. Please review the suggestions above.'' @ NL)
      else Stdout (''All checked files follow Golang best practices.'' @ NL))"

text \<open>
  \<^verbatim>\<open>main\<close> on the arguments \<^verbatim>\<open>os.Args[1:]\<close>: the status it passes to \<^verbatim>\<open>os.Exit\<close>, the
  events up to there, and the world it leaves.
\<close>

definition main :: "'w env \<Rightarrow> string list \<Rightarrow> 'w \<Rightarrow> int \<times> event list \<times> 'w" where
  "main env files w =
     (if length files = 0 then (0, [Stdout (''No files provided for the hook.'' @ NL)], w)
      else if length files > 20 then
        (0,
         [GoStartOllama,
          Stdout (''Skipping as analysing more than 20 files would take too long'' @ NL)],
         w)
      else case loop env files False w of
        (warn, evs, w') \<Rightarrow> (0, GoStartOllama # evs @ [summary warn], w'))"

subsection \<open>A mocked file system and server\<close>

text \<open>
  A small world to run the program in: files are looked up in a table (a path that is
  not there cannot be opened), and the server answers the requests it receives from a
  script, one answer per request, whatever the request says. Its encoder writes, for an
  object, the text of the member \<^verbatim>\<open>prompt\<close> alone, and its JSON grammar knows the texts
  listed in \<open>mock_json\<close> and rejects every other text.
\<close>

record mock_world =
  disk :: "(string \<times> string) list"
  replies :: "(go_error + (go_error + string)) list"

definition mock_ReadFile :: "string \<Rightarrow> mock_world \<Rightarrow> (go_error + string) \<times> mock_world" where
  "mock_ReadFile path w =
     (case map_of (disk w) path of
        None \<Rightarrow> (Inl (''open '' @ path @ '': no such file or directory''), w)
      | Some content \<Rightarrow> (Inr content, w))"

definition mock_Do ::
  "http_request \<Rightarrow> mock_world \<Rightarrow> (go_error + (go_error + string)) \<times> mock_world" where
  "mock_Do req w =
     (case replies w of
        [] \<Rightarrow> (Inl ''connection refused'', w)
      | r # rs \<Rightarrow> (r, w\<lparr>replies := rs\<rparr>))"

definition mock_encode :: "json \<Rightarrow> go_error + string" where
  "mock_encode j =
     (case j of
        JObject members \<Rightarrow>
          (case map_of members ''prompt'' of
             Some (JString p) \<Rightarrow> Inr p
           | _ \<Rightarrow> Inl ''unsupported value'')
      | _ \<Rightarrow> Inl ''unsupported value'')"

text \<open>
  The response bodies of the specification's examples and the texts inside them:
  \<^verbatim>\<open>{"response":"{\"follows_best_practices\":true,\"suggestions\":\"\"}"}\<close>,
  \<^verbatim>\<open>{"response":"{\"follows_best_practices\":false,\"suggestions\":\"use gofmt\"}"}\<close>,
  \<^verbatim>\<open>{"response":"{}"}\<close>, \<^verbatim>\<open>{"response":"[]"}\<close>,
  \<^verbatim>\<open>{"response":"{\"verdict\":\"fine\"}"}\<close>, \<^verbatim>\<open>{"response":"null"}\<close>,
  \<^verbatim>\<open>{"response":"{\"follows_best_practices\":\"yes\"}"}\<close> and
  \<^verbatim>\<open>{"response":"{\"Suggestions\":\"rename it\"}"}\<close>.
\<close>

definition body_pass :: string where
  "body_pass = ''{'' @ [CHR 0x22] @ ''response'' @ [CHR 0x22] @ '':'' @ [CHR 0x22] @ ''{'' @
       [CHR 0x5C, CHR 0x22] @ ''follows_best_practices'' @ [CHR 0x5C, CHR 0x22] @
       '':true,'' @ [CHR 0x5C, CHR 0x22] @ ''suggestions'' @
       [CHR 0x5C, CHR 0x22] @ '':'' @ [CHR 0x5C, CHR 0x22, CHR 0x5C, CHR 0x22] @
       ''}'' @ [CHR 0x22] @ ''}''"

definition inner_pass :: string where
  "inner_pass = ''{'' @ [CHR 0x22] @ ''follows_best_practices'' @ [CHR 0x22] @ '':true,'' @
       [CHR 0x22] @ ''suggestions'' @ [CHR 0x22] @ '':'' @ [CHR 0x22, CHR 0x22] @
       ''}''"

definition body_fail :: string where
  "body_fail = ''{'' @ [CHR 0x22] @ ''response'' @ [CHR 0x22] @ '':'' @ [CHR 0x22] @ ''{'' @
       [CHR 0x5C, CHR 0x22] @ ''follows_best_practices'' @ [CHR 0x5C, CHR 0x22] @
       '':false,'' @ [CHR 0x5C, CHR 0x22] @ ''suggestions'' @
       [CHR 0x5C, CHR 0x22] @ '':'' @ [CHR 0x5C, CHR 0x22] @ ''use gofmt'' @
       [CHR 0x5C, CHR 0x22] @ ''}'' @ [CHR 0x22] @ ''}''"

definition inner_fail :: string where
  "inner_fail = ''{'' @ [CHR 0x22] @ ''follows_best_practices'' @ [CHR 0x22] @ '':false,'' @
       [CHR 0x22] @ ''suggestions'' @ [CHR 0x22] @ '':'' @ [CHR 0x22] @
       ''use gofmt'' @ [CHR 0x22] @ ''}''"

definition body_empty :: string where
  "body_empty = ''{'' @ [CHR 0x22] @ ''response'' @ [CHR 0x22] @ '':'' @ [CHR 0x22] @ ''{}'' @
       [CHR 0x22] @ ''}''"

definition body_array :: string where
  "body_array = ''{'' @ [CHR 0x22] @ ''response'' @ [CHR 0x22] @ '':'' @ [CHR 0x22] @ ''[]'' @
       [CHR 0x22] @ ''}''"

definition body_extra :: string where
  "body_extra = ''{'' @ [CHR 0x22] @ ''response'' @ [CHR 0x22] @ '':'' @ [CHR 0x22] @ ''{'' @
       [CHR 0x5C, CHR 0x22] @ ''verdict'' @ [CHR 0x5C, CHR 0x22] @ '':'' @
       [CHR 0x5C, CHR 0x22] @ ''fine'' @ [CHR 0x5C, CHR 0x22] @ ''}'' @
       [CHR 0x22] @ ''}''"

definition inner_extra :: string where
  "inner_extra = ''{'' @ [CHR 0x22] @ ''verdict'' @ [CHR 0x22] @ '':'' @ [CHR 0x22] @ ''fine'' @
       [CHR 0x22] @ ''}''"

definition body_null :: string where
  "body_null = ''{'' @ [CHR 0x22] @ ''response'' @ [CHR 0x22] @ '':'' @ [CHR 0x22] @ ''null'' @
       [CHR 0x22] @ ''}''"

definition body_mistyped :: string where
  "body_mistyped = ''{'' @ [CHR 0x22] @ ''response'' @ [CHR 0x22] @ '':'' @ [CHR 0x22] @ ''{'' @
       [CHR 0x5C, CHR 0x22] @ ''follows_best_practices'' @ [CHR 0x5C, CHR 0x22] @
       '':'' @ [CHR 0x5C, CHR 0x22] @ ''yes'' @ [CHR 0x5C, CHR 0x22] @ ''}'' @
       [CHR 0x22] @ ''}''"

definition inner_mistyped :: string where
  "inner_mistyped = ''{'' @ [CHR 0x22] @ ''follows_best_practices'' @ [CHR 0x22] @ '':'' @
       [CHR 0x22] @ ''yes'' @ [CHR 0x22] @ ''}''"

definition body_folded :: string where
  "body_folded = ''{'' @ [CHR 0x22] @ ''response'' @ [CHR 0x22] @ '':'' @ [CHR 0x22] @ ''{'' @
       [CHR 0x5C, CHR 0x22] @ ''Suggestions'' @ [CHR 0x5C, CHR 0x22] @ '':'' @
       [CHR 0x5C, CHR 0x22] @ ''rename it'' @ [CHR 0x5C, CHR 0x22] @ ''}'' @
       [CHR 0x22] @ ''}''"

definition inner_folded :: string where
  "inner_folded = ''{'' @ [CHR 0x22] @ ''Suggestions'' @ [CHR 0x22] @ '':'' @ [CHR 0x22] @
       ''rename it'' @ [CHR 0x22] @ ''}''"

definition mock_json :: "(string \<times> json) list" where
  "mock_json =
     [(body_pass, JObject [(''response'', JString inner_pass)]),
      (inner_pass,
       JObject [(''follows_best_practices'', JBool True), (''suggestions'', JString [])]),
      (body_fail, JObject [(''response'', JString inner_fail)]),
      (inner_fail,
       JObject [(''follows_best_practices'', JBool False),
                (''suggestions'', JString ''use gofmt'')]),
      (body_empty, JObject [(''response'', JString ''{}'')]),
      (''{}'', JObject []),
      (body_array, JObject [(''response'', JString ''[]'')]),
      (''[]'', JArray []),
      (body_extra, JObject [(''response'', JString inner_extra)]),
      (inner_extra, JObject [(''verdict'', JString ''fine'')]),
      (body_null, JObject [(''response'', JString ''null'')]),
      (''null'', JNull),
      (body_mistyped, JObject [(''response'', JString inner_mistyped)]),
      (inner_mistyped, JObject [(''follows_best_practices'', JString ''yes'')]),
      (body_folded, JObject [(''response'', JString inner_folded)]),
      (inner_folded, JObject [(''Suggestions'', JString ''rename it'')])]"

definition mock_parse :: "string \<Rightarrow> go_error + json" where
  "mock_parse text =
     (case map_of mock_json text of
        None \<Rightarrow> Inl ''invalid character''
      | Some j \<Rightarrow> Inr j)"

definition mock :: "mock_world env" where
  "mock = \<lparr>os_ReadFile = mock_ReadFile, client_Do = mock_Do,
            json_encode = mock_encode, json_parse = mock_parse\<rparr>"

text \<open>File contents at the size limit: 8000 and 8001 runes of one byte each, and 4001
  runes of two bytes each (U+00E9, bytes C3 A9).\<close>

definition content_8000 :: string where
  "content_8000 = replicate 8000 (CHR ''a'')"

definition content_8001 :: string where
  "content_8001 = replicate 8001 (CHR ''a'')"

definition content_wide :: string where
  "content_wide = concat (replicate 4001 [CHR 0xC3, CHR 0xA9])"

section \<open>Properties\<close>

subsection \<open>Standard library\<close>

declare itoa.simps [simp del]

lemma itoa_ollamaPort: "itoa ollamaPort = ''11435''"
  by (simp add: ollamaPort_def itoa.simps)

lemma RuneCount_ascii: "RuneCountInString (replicate n (CHR ''a'')) = n"
  by (induction n) (simp_all add: rune_step_def)

lemma RuneCount_two_byte:
  "RuneCountInString (concat (replicate n [CHR 0xC3, CHR 0xA9])) = n"
  by (induction n) (simp_all add: rune_step_def first_def)

lemma RuneCount_content_8000: "RuneCountInString content_8000 = 8000"
  unfolding content_8000_def by (rule RuneCount_ascii)

lemma RuneCount_content_8001: "RuneCountInString content_8001 = 8001"
  unfolding content_8001_def by (rule RuneCount_ascii)

lemma RuneCount_content_wide: "RuneCountInString content_wide = 4001"
  unfolding content_wide_def by (rule RuneCount_two_byte)

lemma length_content_wide: "length content_wide = 8002"
  unfolding content_wide_def by (simp add: length_concat sum_list_replicate)

subsection \<open>The loop, file by file\<close>

lemma loop_append:
  "loop env (xs @ ys) warn w =
     (case loop env xs warn w of
        (warn1, evs1, w1) \<Rightarrow>
          (case loop env ys warn1 w1 of (warn2, evs2, w2) \<Rightarrow> (warn2, evs1 @ evs2, w2)))"
  by (induction xs arbitrary: warn w) (auto split: prod.splits)

text \<open>
  The run of the loop splits at any turn \<open>i\<close>: the turns before it, the turn itself, the
  turns after it, each starting from the flag and the world the one before left.
\<close>

lemma loop_split:
  assumes "i < length files"
    and "loop env (take i files) warn w = (warn_i, pre, w_i)"
    and "loop_body env (files ! i) warn_i w_i = (warn_b, evs_b, w_b)"
    and "loop env (drop (Suc i) files) warn_b w_b = (warn', post, w')"
  shows "loop env files warn w = (warn', pre @ evs_b @ post, w')"
proof -
  have "files = take i files @ (files ! i) # drop (Suc i) files"
    using assms(1) by (simp add: id_take_nth_drop)
  then have "loop env files warn w =
      loop env (take i files @ (files ! i) # drop (Suc i) files) warn w"
    by simp
  also have "\<dots> = (warn', pre @ evs_b @ post, w')"
    using assms(2-4) by (simp add: loop_append)
  finally show ?thesis .
qed

lemma main_split:
  assumes "length files \<le> 20" "i < length files"
    and "loop env (take i files) False w = (warn_i, pre, w_i)"
    and "loop_body env (files ! i) warn_i w_i = (warn_b, evs_b, w_b)"
    and "loop env (drop (Suc i) files) warn_b w_b = (warn', post, w')"
  shows "main env files w = (0, GoStartOllama # pre @ evs_b @ post @ [summary warn'], w')"
  using assms loop_split [OF assms(2-5)] by (auto simp: main_def)

text \<open>Once set, the flag stays set.\<close>

lemma loop_body_warn_True: "loop_body env file True w = (warn', evs, w') \<Longrightarrow> warn'"
  by (auto simp: loop_body_def split: if_splits prod.splits sum.splits)

lemma loop_warn_True: "loop env files True w = (warn', evs, w') \<Longrightarrow> warn'"
proof (induction files arbitrary: w evs)
  case Nil
  then show ?case by simp
next
  case (Cons f fs)
  obtain wb eb w1 where b: "loop_body env f True w = (wb, eb, w1)"
    by (cases "loop_body env f True w") auto
  then have "wb" by (rule loop_body_warn_True)
  with Cons b show ?case by (auto split: prod.splits)
qed

subsection \<open>What a turn of the loop can do to the flag\<close>

lemma queryLLM_events:
  assumes "queryLLM env filename content w = (r, evs, w')"
  shows "evs = [] \<or> (\<exists>req. evs = [HttpDo req])"
  using assms
  by (auto simp: queryLLM_def NewRequest_def Let_def split: sum.splits prod.splits)

lemma loop_body_warn_cases:
  assumes "loop_body env file warn w = (warn', evs, w')"
  shows "warn' = warn \<or>
    (\<exists>content w1 verdict evq w2.
       HasSuffix file ''.go'' \<and> os_ReadFile env file w = (Inr content, w1) \<and>
       RuneCountInString content \<le> 8000 \<and>
       queryLLM env file content w1 = (Inr verdict, evq, w2) \<and>
       \<not> FollowsBestPractices verdict)"
  using assms
  by (auto simp: loop_body_def split: if_splits prod.splits sum.splits)

lemma loop_without_failing_verdict:
  assumes "\<forall>i<length files. \<forall>warn_i pre w_i content w1 verdict evq w2.
      loop env (take i files) warn0 w = (warn_i, pre, w_i) \<and>
      HasSuffix (files ! i) ''.go'' \<and>
      os_ReadFile env (files ! i) w_i = (Inr content, w1) \<and>
      RuneCountInString content \<le> 8000 \<and>
      queryLLM env (files ! i) content w1 = (Inr verdict, evq, w2)
      \<longrightarrow> FollowsBestPractices verdict"
    and "loop env files warn0 w = (warn', evs, w')"
  shows "warn' = warn0"
  using assms
proof (induction files arbitrary: warn' evs w' rule: rev_induct)
  case Nil
  then show ?case by simp
next
  case (snoc f fs)
  obtain wa ea w_a where a: "loop env fs warn0 w = (wa, ea, w_a)"
    by (cases "loop env fs warn0 w") auto
  obtain wb eb w_b where b: "loop_body env f wa w_a = (wb, eb, w_b)"
    by (cases "loop_body env f wa w_a") auto
  have last: "warn' = wb"
    using snoc.prems(2) a b by (simp add: loop_append)
  have "\<forall>i<length fs. \<forall>warn_i pre w_i content w1 verdict evq w2.
      loop env (take i fs) warn0 w = (warn_i, pre, w_i) \<and>
      HasSuffix (fs ! i) ''.go'' \<and>
      os_ReadFile env (fs ! i) w_i = (Inr content, w1) \<and>
      RuneCountInString content \<le> 8000 \<and>
      queryLLM env (fs ! i) content w1 = (Inr verdict, evq, w2)
      \<longrightarrow> FollowsBestPractices verdict"
  proof (intro allI impI)
    fix i warn_i pre w_i content w1 verdict evq w2
    assume i: "i < length fs"
      and h: "loop env (take i fs) warn0 w = (warn_i, pre, w_i) \<and>
        HasSuffix (fs ! i) ''.go'' \<and>
        os_ReadFile env (fs ! i) w_i = (Inr content, w1) \<and>
        RuneCountInString content \<le> 8000 \<and>
        queryLLM env (fs ! i) content w1 = (Inr verdict, evq, w2)"
    from i have "i < length (fs @ [f])" by simp
    moreover from i have "take i (fs @ [f]) = take i fs" "(fs @ [f]) ! i = fs ! i"
      by (simp_all add: nth_append)
    ultimately show "FollowsBestPractices verdict"
      using snoc.prems(1) h by metis
  qed
  from snoc.IH [OF this a] have wa: "wa = warn0" .
  have "wb = wa"
  proof (rule ccontr)
    assume "wb \<noteq> wa"
    with loop_body_warn_cases [OF b]
    obtain content w1 verdict evq w2 where
      e: "HasSuffix f ''.go''" "os_ReadFile env f w_a = (Inr content, w1)"
         "RuneCountInString content \<le> 8000"
         "queryLLM env f content w1 = (Inr verdict, evq, w2)"
         "\<not> FollowsBestPractices verdict"
      by blast
    have "length fs < length (fs @ [f])" by simp
    moreover have "take (length fs) (fs @ [f]) = fs" "(fs @ [f]) ! length fs = f"
      by simp_all
    ultimately have "FollowsBestPractices verdict"
      using snoc.prems(1) a e(1-4) by metis
    with e(5) show False by simp
  qed
  with last wa show ?case by simp
qed

subsection \<open>The reads and the requests of a run\<close>

lemma loop_body_read:
  assumes "loop_body env file warn w = (warn', evs, w')" and "FileRead p \<in> set evs"
  shows "p = file \<and> HasSuffix file ''.go''"
proof (cases "HasSuffix file ''.go''")
  case False
  with assms show ?thesis by (simp add: loop_body_def)
next
  case go: True
  obtain rd w1 where rd: "os_ReadFile env file w = (rd, w1)"
    by (cases "os_ReadFile env file w") auto
  show ?thesis
  proof (cases rd)
    case (Inl err)
    with assms go rd show ?thesis by (auto simp: loop_body_def)
  next
    case (Inr content)
    obtain r evq w2 where q: "queryLLM env file content w1 = (r, evq, w2)"
      by (cases "queryLLM env file content w1") auto
    from queryLLM_events [OF q] have "FileRead p \<notin> set evq" by auto
    with assms go rd Inr q show ?thesis
      by (auto simp: loop_body_def split: sum.splits if_splits)
  qed
qed

lemma loop_read:
  assumes "loop env files warn w = (warn', evs, w')" and "FileRead p \<in> set evs"
  shows "p \<in> set files \<and> HasSuffix p ''.go''"
  using assms
proof (induction files arbitrary: warn w warn' evs w')
  case Nil
  then show ?case by simp
next
  case (Cons f fs)
  obtain wb eb w_b where b: "loop_body env f warn w = (wb, eb, w_b)"
    by (cases "loop_body env f warn w") auto
  obtain wr er w_r where r: "loop env fs wb w_b = (wr, er, w_r)"
    by (cases "loop env fs wb w_b") auto
  from Cons.prems b r have "FileRead p \<in> set eb \<or> FileRead p \<in> set er"
    by auto
  then show ?case
  proof
    assume "FileRead p \<in> set eb"
    from loop_body_read [OF b this] show ?thesis by simp
  next
    assume "FileRead p \<in> set er"
    from Cons.IH [OF r this] show ?thesis by simp
  qed
qed

lemma main_read:
  assumes "FileRead p \<in> set (fst (snd (main env files w)))"
  shows "p \<in> set files \<and> HasSuffix p ''.go''"
proof -
  obtain warn' evs w' where l: "loop env files False w = (warn', evs, w')"
    by (cases "loop env files False w") auto
  from assms l have "FileRead p \<in> set evs"
    by (auto simp: main_def summary_def split: if_splits)
  from loop_read [OF l this] show ?thesis .
qed

lemma queryLLM_request:
  assumes "queryLLM env filename content w = (r, evs, w')" and "HttpDo req \<in> set evs"
  shows "req = \<lparr>Method = ''POST'', URL = ''http://127.0.0.1:11435/api/generate'',
                 Header = [(''Content-Type'', ''application/json'')], Body = Body req\<rparr> \<and>
         json_Marshal env
           \<lparr>Model = ''qwen2.5-coder:7b'',
            Prompt = ''File to check:'' @ NL @ ''Filename: '' @ filename @ NL
                       @ ''Content:'' @ NL @ content,
            Format = ''json'', System = system_prompt, Stream = False\<rparr> = Inr (Body req)"
  using assms
  by (auto simp: queryLLM_def NewRequest_def Header_Add_def itoa_ollamaPort Let_def
           split: sum.splits prod.splits)

lemma loop_body_request:
  assumes "loop_body env file warn w = (warn', evs, w')" and "HttpDo req \<in> set evs"
  shows "\<exists>content w0 w1.
     HasSuffix file ''.go'' \<and> os_ReadFile env file w0 = (Inr content, w1) \<and>
     RuneCountInString content \<le> 8000 \<and>
     req = \<lparr>Method = ''POST'', URL = ''http://127.0.0.1:11435/api/generate'',
             Header = [(''Content-Type'', ''application/json'')], Body = Body req\<rparr> \<and>
     json_Marshal env
       \<lparr>Model = ''qwen2.5-coder:7b'',
        Prompt = ''File to check:'' @ NL @ ''Filename: '' @ file @ NL
                   @ ''Content:'' @ NL @ content,
        Format = ''json'', System = system_prompt, Stream = False\<rparr> = Inr (Body req)"
proof (cases "HasSuffix file ''.go''")
  case False
  with assms show ?thesis by (simp add: loop_body_def)
next
  case go: True
  obtain rd w1 where rd: "os_ReadFile env file w = (rd, w1)"
    by (cases "os_ReadFile env file w") auto
  show ?thesis
  proof (cases rd)
    case (Inl err)
    with assms go rd show ?thesis by (auto simp: loop_body_def)
  next
    case (Inr content)
    show ?thesis
    proof (cases "RuneCountInString content > 8000")
      case True
      with assms go rd Inr show ?thesis by (auto simp: loop_body_def)
    next
      case False
      obtain r evq w2 where q: "queryLLM env file content w1 = (r, evq, w2)"
        by (cases "queryLLM env file content w1") auto
      from assms go rd Inr False q have "HttpDo req \<in> set evq"
        by (auto simp: loop_body_def split: sum.splits if_splits)
      from queryLLM_request [OF q this] go rd Inr False show ?thesis
        by (intro exI [of _ content] exI [of _ w] exI [of _ w1]) simp
    qed
  qed
qed

lemma loop_request:
  assumes "loop env files warn w = (warn', evs, w')" and "HttpDo req \<in> set evs"
  shows "\<exists>file content w0 w1.
     file \<in> set files \<and>
     HasSuffix file ''.go'' \<and> os_ReadFile env file w0 = (Inr content, w1) \<and>
     RuneCountInString content \<le> 8000 \<and>
     req = \<lparr>Method = ''POST'', URL = ''http://127.0.0.1:11435/api/generate'',
             Header = [(''Content-Type'', ''application/json'')], Body = Body req\<rparr> \<and>
     json_Marshal env
       \<lparr>Model = ''qwen2.5-coder:7b'',
        Prompt = ''File to check:'' @ NL @ ''Filename: '' @ file @ NL
                   @ ''Content:'' @ NL @ content,
        Format = ''json'', System = system_prompt, Stream = False\<rparr> = Inr (Body req)"
  using assms
proof (induction files arbitrary: warn w warn' evs w')
  case Nil
  then show ?case by simp
next
  case (Cons f fs)
  obtain wb eb w_b where b: "loop_body env f warn w = (wb, eb, w_b)"
    by (cases "loop_body env f warn w") auto
  obtain wr er w_r where r: "loop env fs wb w_b = (wr, er, w_r)"
    by (cases "loop env fs wb w_b") auto
  from Cons.prems b r have "HttpDo req \<in> set eb \<or> HttpDo req \<in> set er"
    by auto
  then show ?case
  proof
    assume "HttpDo req \<in> set eb"
    from loop_body_request [OF b this] show ?thesis
      by (metis list.set_intros(1))
  next
    assume "HttpDo req \<in> set er"
    from Cons.IH [OF r this] show ?thesis
      by (metis list.set_intros(2))
  qed
qed

lemma main_request:
  assumes "HttpDo req \<in> set (fst (snd (main env files w)))"
  shows "\<exists>file content w0 w1.
     file \<in> set files \<and>
     HasSuffix file ''.go'' \<and> os_ReadFile env file w0 = (Inr content, w1) \<and>
     RuneCountInString content \<le> 8000 \<and>
     req = \<lparr>Method = ''POST'', URL = ''http://127.0.0.1:11435/api/generate'',
             Header = [(''Content-Type'', ''application/json'')], Body = Body req\<rparr> \<and>
     json_Marshal env
       \<lparr>Model = ''qwen2.5-coder:7b'',
        Prompt = ''File to check:'' @ NL @ ''Filename: '' @ file @ NL
                   @ ''Content:'' @ NL @ content,
        Format = ''json'', System = system_prompt, Stream = False\<rparr> = Inr (Body req)"
proof -
  obtain warn' evs w' where l: "loop env files False w = (warn', evs, w')"
    by (cases "loop env files False w") auto
  from assms l have "HttpDo req \<in> set evs"
    by (auto simp: main_def summary_def split: if_splits)
  from loop_request [OF l this] show ?thesis .
qed

subsection \<open>The lines a turn prints\<close>

lemma loop_body_prints:
  assumes "loop_body env file warn w = (warn', evs, w')" and "Stdout s \<in> set evs"
  shows "s \<noteq> NL @ ''Warning: Some files do not follow Golang best practices. Please review the suggestions above.'' @ NL \<and>
         s \<noteq> ''All checked files follow Golang best practices.'' @ NL"
proof (cases "HasSuffix file ''.go''")
  case False
  with assms show ?thesis by (simp add: loop_body_def)
next
  case go: True
  obtain rd w1 where rd: "os_ReadFile env file w = (rd, w1)"
    by (cases "os_ReadFile env file w") auto
  show ?thesis
  proof (cases rd)
    case (Inl err)
    with assms go rd show ?thesis by (auto simp: loop_body_def)
  next
    case (Inr content)
    obtain r evq w2 where q: "queryLLM env file content w1 = (r, evq, w2)"
      by (cases "queryLLM env file content w1") auto
    from queryLLM_events [OF q] have "Stdout s \<notin> set evq" by auto
    with assms go rd Inr q show ?thesis
      by (auto simp: loop_body_def split: sum.splits if_splits)
  qed
qed

lemma loop_prints:
  assumes "loop env files warn w = (warn', evs, w')" and "Stdout s \<in> set evs"
  shows "s \<noteq> NL @ ''Warning: Some files do not follow Golang best practices. Please review the suggestions above.'' @ NL \<and>
         s \<noteq> ''All checked files follow Golang best practices.'' @ NL"
  using assms
proof (induction files arbitrary: warn w warn' evs w')
  case Nil
  then show ?case by simp
next
  case (Cons f fs)
  obtain wb eb w_b where b: "loop_body env f warn w = (wb, eb, w_b)"
    by (cases "loop_body env f warn w") auto
  obtain wr er w_r where r: "loop env fs wb w_b = (wr, er, w_r)"
    by (cases "loop env fs wb w_b") auto
  from Cons.prems b r have "Stdout s \<in> set eb \<or> Stdout s \<in> set er"
    by auto
  then show ?case
  proof
    assume "Stdout s \<in> set eb"
    from loop_body_prints [OF b this] show ?thesis .
  next
    assume "Stdout s \<in> set er"
    from Cons.IH [OF r this] show ?thesis .
  qed
qed

subsection \<open>Decoding the inner object\<close>

lemma field_of_key_in_names: "field_of_key names key = Some f \<Longrightarrow> f \<in> set names"
  by (auto simp: field_of_key_def find_Some_iff split: if_splits)

lemma object_LLMResponse_typed:
  assumes "\<forall>(key, item) \<in> set members.
      (field_of_key [''follows_best_practices'', ''suggestions''] key
         = Some ''follows_best_practices'' \<longrightarrow> item = JNull \<or> (\<exists>b. item = JBool b)) \<and>
      (field_of_key [''follows_best_practices'', ''suggestions''] key
         = Some ''suggestions'' \<longrightarrow> item = JNull \<or> (\<exists>s. item = JString s))"
  shows "\<exists>v. object_LLMResponse members (v0, saved) = (v, saved) \<and>
     ((\<forall>(key, item) \<in> set members.
         field_of_key [''follows_best_practices'', ''suggestions''] key
           \<noteq> Some ''follows_best_practices'')
      \<longrightarrow> FollowsBestPractices v = FollowsBestPractices v0) \<and>
     ((\<forall>(key, item) \<in> set members.
         field_of_key [''follows_best_practices'', ''suggestions''] key \<noteq> Some ''suggestions'')
      \<longrightarrow> Suggestions v = Suggestions v0)"
  using assms
proof (induction members arbitrary: v0)
  case Nil
  then show ?case by simp
next
  case (Cons m ms)
  obtain key item where m: "m = (key, item)" by (cases m)
  let ?names = "[''follows_best_practices'', ''suggestions'']"
  from Cons.prems have rest: "\<forall>(key, item) \<in> set ms.
      (field_of_key ?names key = Some ''follows_best_practices''
         \<longrightarrow> item = JNull \<or> (\<exists>b. item = JBool b)) \<and>
      (field_of_key ?names key = Some ''suggestions''
         \<longrightarrow> item = JNull \<or> (\<exists>s. item = JString s))"
    by simp
  from Cons.prems m have here:
    "field_of_key ?names key = Some ''follows_best_practices''
       \<Longrightarrow> item = JNull \<or> (\<exists>b. item = JBool b)"
    "field_of_key ?names key = Some ''suggestions''
       \<Longrightarrow> item = JNull \<or> (\<exists>s. item = JString s)"
    by simp_all
  show ?case
  proof (cases "field_of_key ?names key")
    case None
    with Cons.IH [OF rest, of v0] m show ?thesis by auto
  next
    case (Some f)
    from field_of_key_in_names [OF Some]
    consider "f = ''follows_best_practices''" | "f = ''suggestions''" by auto
    then show ?thesis
    proof cases
      case 1
      with here(1) Some consider "item = JNull" | b where "item = JBool b" by auto
      then show ?thesis
      proof cases
        case 1
        with Cons.IH [OF rest, of v0] m Some \<open>f = ''follows_best_practices''\<close>
        show ?thesis by auto
      next
        case 2
        with Cons.IH [OF rest, of "v0\<lparr>FollowsBestPractices := b\<rparr>"] m Some
          \<open>f = ''follows_best_practices''\<close>
        show ?thesis by auto
      qed
    next
      case 2
      with here(2) Some consider "item = JNull" | s where "item = JString s" by auto
      then show ?thesis
      proof cases
        case 1
        with Cons.IH [OF rest, of v0] m Some \<open>f = ''suggestions''\<close>
        show ?thesis by auto
      next
        case 2
        with Cons.IH [OF rest, of "v0\<lparr>Suggestions := s\<rparr>"] m Some \<open>f = ''suggestions''\<close>
        show ?thesis by auto
      qed
    qed
  qed
qed

text \<open>Keys and field names: for an ASCII key, folding is upper-casing.\<close>

lemma foldName_ascii: "\<forall>c \<in> set s. (of_char c :: nat) < 128 \<Longrightarrow> foldName s = map upper s"
  by (induction s rule: foldName.induct) auto

lemma names_ascii:
  "\<forall>c \<in> set ''follows_best_practices''. (of_char c :: nat) < 128"
  "\<forall>c \<in> set ''suggestions''. (of_char c :: nat) < 128"
  by simp_all


lemma upper_names_differ:
  "map upper ''follows_best_practices'' \<noteq> map upper ''suggestions''"
proof
  assume "map upper ''follows_best_practices'' = map upper ''suggestions''"
  then have "length (map upper ''follows_best_practices'') = length (map upper ''suggestions'')"
    by (rule arg_cong)
  then show False by simp
qed

lemma field_of_key_ascii:
  assumes "\<forall>c \<in> set key. (of_char c :: nat) < 128"
  shows "(field_of_key [''follows_best_practices'', ''suggestions''] key
            = Some ''follows_best_practices''
          \<longleftrightarrow> map upper key = map upper ''follows_best_practices'') \<and>
         (field_of_key [''follows_best_practices'', ''suggestions''] key = Some ''suggestions''
          \<longleftrightarrow> map upper key = map upper ''suggestions'')"
proof -
  define F where "F = ''follows_best_practices''"
  define S where "S = ''suggestions''"
  have k: "foldName key = map upper key" using assms by (rule foldName_ascii)
  have f: "foldName F = map upper F"
    unfolding F_def using names_ascii(1) by (rule foldName_ascii)
  have s: "foldName S = map upper S"
    unfolding S_def using names_ascii(2) by (rule foldName_ascii)
  have d: "F \<noteq> S" unfolding F_def S_def by simp
  have u: "map upper F \<noteq> map upper S" unfolding F_def S_def by (rule upper_names_differ)
  have "(field_of_key [F, S] key = Some F \<longleftrightarrow> map upper key = map upper F) \<and>
        (field_of_key [F, S] key = Some S \<longleftrightarrow> map upper key = map upper S)"
    using d u by (auto simp: field_of_key_def k f s)
  then show ?thesis unfolding F_def S_def .
qed

text \<open>A member of the wrong type leaves an error behind, and a saved error stays.\<close>

lemma object_LLMResponse_saved:
  "\<exists>v. object_LLMResponse members (v0, Some e) = (v, Some e)"
proof (induction members arbitrary: v0)
  case Nil
  then show ?case by simp
next
  case (Cons m ms)
  obtain key item where m: "m = (key, item)" by (cases m)
  show ?case
    using Cons.IH unfolding m
    by (auto simp: saveError_def split: option.splits sum.splits)
qed

lemma store_bool_mistyped:
  "item \<noteq> JNull \<Longrightarrow> \<forall>b. item \<noteq> JBool b \<Longrightarrow> \<exists>err. store_bool struct field item old = Inl err"
  by (cases item) auto

lemma store_string_mistyped:
  "item \<noteq> JNull \<Longrightarrow> \<forall>s. item \<noteq> JString s \<Longrightarrow>
     \<exists>err. store_string struct field item old = Inl err"
  by (cases item) auto

lemma object_LLMResponse_mistyped:
  assumes "\<not> (\<forall>(key, item) \<in> set members.
      (field_of_key [''follows_best_practices'', ''suggestions''] key
         = Some ''follows_best_practices'' \<longrightarrow> item = JNull \<or> (\<exists>b. item = JBool b)) \<and>
      (field_of_key [''follows_best_practices'', ''suggestions''] key
         = Some ''suggestions'' \<longrightarrow> item = JNull \<or> (\<exists>s. item = JString s)))"
  shows "\<exists>v e. object_LLMResponse members (v0, saved) = (v, Some e)"
  using assms
proof (induction members arbitrary: v0 saved)
  case Nil
  then show ?case by simp
next
  case (Cons m ms)
  obtain key item where m: "m = (key, item)" by (cases m)
  let ?names = "[''follows_best_practices'', ''suggestions'']"
  let ?ok = "\<lambda>key item.
      (field_of_key ?names key = Some ''follows_best_practices''
         \<longrightarrow> item = JNull \<or> (\<exists>b. item = JBool b)) \<and>
      (field_of_key ?names key = Some ''suggestions''
         \<longrightarrow> item = JNull \<or> (\<exists>s. item = JString s))"
  define st where "st =
    (case field_of_key ?names key of
        None \<Rightarrow> (v0, saved)
      | Some f \<Rightarrow>
          if f = ''follows_best_practices'' then
            (case store_bool ''LLMResponse'' f item (FollowsBestPractices v0) of
               Inl err \<Rightarrow> (v0, saveError saved err)
             | Inr b \<Rightarrow> (v0\<lparr>FollowsBestPractices := b\<rparr>, saved))
          else
            (case store_string ''LLMResponse'' f item (Suggestions v0) of
               Inl err \<Rightarrow> (v0, saveError saved err)
             | Inr s \<Rightarrow> (v0\<lparr>Suggestions := s\<rparr>, saved)))"
  obtain v1 s1 where step: "st = (v1, s1)" by (cases st)
  have run: "object_LLMResponse (m # ms) (v0, saved) = object_LLMResponse ms (v1, s1)"
    unfolding m using step by (simp add: st_def)
  show ?case
  proof (cases "?ok key item")
    case True
    with Cons.prems m have "\<not> (\<forall>(key, item) \<in> set ms. ?ok key item)" by simp
    from Cons.IH [OF this, of v1 s1] run show ?thesis by simp
  next
    case False
    then consider
        "field_of_key ?names key = Some ''follows_best_practices''"
        "item \<noteq> JNull" "\<forall>b. item \<noteq> JBool b"
      | "field_of_key ?names key = Some ''suggestions''"
        "item \<noteq> JNull" "\<forall>s. item \<noteq> JString s"
      by blast
    then have "\<exists>e. s1 = Some e"
    proof cases
      case 1
      from store_bool_mistyped [OF 1(2,3)] obtain err where
        "store_bool ''LLMResponse'' ''follows_best_practices'' item (FollowsBestPractices v0)
           = Inl err"
        by blast
      with step 1(1) show ?thesis by (auto simp: st_def saveError_def split: option.splits)
    next
      case 2
      from store_string_mistyped [OF 2(2,3)] obtain err where
        "store_string ''LLMResponse'' ''suggestions'' item (Suggestions v0) = Inl err"
        by blast
      with step 2(1) show ?thesis by (auto simp: st_def saveError_def split: option.splits)
    qed
    then obtain e where "s1 = Some e" by blast
    with object_LLMResponse_saved [of ms v1 e] run show ?thesis by auto
  qed
qed

subsection \<open>The turn of a file whose envelope was decoded\<close>

lemma queryLLM_inner:
  assumes "json_Marshal env
           \<lparr>Model = ''qwen2.5-coder:7b'',
            Prompt = ''File to check:'' @ NL @ ''Filename: '' @ filename @ NL
                       @ ''Content:'' @ NL @ content,
            Format = ''json'', System = system_prompt, Stream = False\<rparr> = Inr body"
    and "client_Do env
           \<lparr>Method = ''POST'', URL = ''http://127.0.0.1:11435/api/generate'',
            Header = [(''Content-Type'', ''application/json'')], Body = body\<rparr> w1
         = (Inr (Inr reply), w2)"
    and "Unmarshal_ollamaResponse env reply = Inr oResp"
    and "json_parse env (Response oResp) = Inr j"
  shows "queryLLM env filename content w1 =
     ((case decode_LLMResponse j of
         Inl err \<Rightarrow> Inl (''error unmarshalling LLM response: '' @ err)
       | Inr llmResponse \<Rightarrow> Inr llmResponse),
      [HttpDo \<lparr>Method = ''POST'', URL = ''http://127.0.0.1:11435/api/generate'',
               Header = [(''Content-Type'', ''application/json'')], Body = body\<rparr>],
      w2)"
  using assms
  by (simp add: queryLLM_def NewRequest_def Header_Add_def itoa_ollamaPort
        Unmarshal_LLMResponse_def split: sum.splits)

lemma main_verdict_failing:
  assumes "length files \<le> 20" and "i < length files"
    and "loop env (take i files) False w = (warn_i, pre, w_i)"
    and "HasSuffix (files ! i) ''.go''"
    and "os_ReadFile env (files ! i) w_i = (Inr content, w1)"
    and "RuneCountInString content \<le> 8000"
    and "queryLLM env (files ! i) content w1 = (Inr verdict, evs, w2)"
    and "\<not> FollowsBestPractices verdict"
    and "loop env (drop (Suc i) files) True w2 = (warn', post, w')"
  shows "main env files w =
    (0,
     GoStartOllama # pre @
       (FileRead (files ! i) # evs @
        [Stdout (NL @ ''File: '' @ files ! i @ '' does not follow best practices:'' @ NL),
         Stdout (''Suggestions: '' @ Suggestions verdict @ NL),
         Stdout (''--------------------------------------------'' @ NL)])
       @ post @
       [Stdout (NL @ ''Warning: Some files do not follow Golang best practices. Please review the suggestions above.'' @ NL)],
     w')"
proof -
  have b: "loop_body env (files ! i) warn_i w_i =
    (True,
     FileRead (files ! i) # evs @
        [Stdout (NL @ ''File: '' @ files ! i @ '' does not follow best practices:'' @ NL),
         Stdout (''Suggestions: '' @ Suggestions verdict @ NL),
         Stdout (''--------------------------------------------'' @ NL)],
     w2)"
    using assms(4-8) by (simp add: loop_body_def)
  have "warn'" using assms(9) by (rule loop_warn_True)
  then show ?thesis
    using main_split [OF assms(1-3) b assms(9)] by (simp add: summary_def)
qed

lemma main_query_failed:
  assumes "length files \<le> 20" and "i < length files"
    and "loop env (take i files) False w = (warn_i, pre, w_i)"
    and "HasSuffix (files ! i) ''.go''"
    and "os_ReadFile env (files ! i) w_i = (Inr content, w1)"
    and "RuneCountInString content \<le> 8000"
    and "queryLLM env (files ! i) content w1 = (Inl err, evs, w2)"
    and "loop env (drop (Suc i) files) warn_i w2 = (warn', post, w')"
  shows "main env files w =
    (0,
     GoStartOllama # pre @
       (FileRead (files ! i) # evs @
        [Stdout (''Error querying LLM for file '' @ files ! i @ '': '' @ err @ NL)])
       @ post @ [summary warn'],
     w')"
proof -
  have b: "loop_body env (files ! i) warn_i w_i =
    (warn_i,
     FileRead (files ! i) # evs @
        [Stdout (''Error querying LLM for file '' @ files ! i @ '': '' @ err @ NL)],
     w2)"
    using assms(4-7) by (simp add: loop_body_def)
  show ?thesis
    using main_split [OF assms(1-3) b assms(8)] by simp
qed

subsection \<open>Running the mocked world\<close>

lemma mock_sel:
  "os_ReadFile mock = mock_ReadFile" "client_Do mock = mock_Do"
  "json_encode mock = mock_encode" "json_parse mock = mock_parse"
  by (simp_all add: mock_def)

lemma mock_Marshal: "json_Marshal mock r = Inr (Prompt r)"
  by (simp add: json_Marshal_def mock_sel mock_encode_def)

lemma mock_parse_simps:
  "mock_parse body_pass = Inr (JObject [(''response'', JString inner_pass)])"
  "mock_parse inner_pass =
     Inr (JObject [(''follows_best_practices'', JBool True), (''suggestions'', JString [])])"
  "mock_parse body_fail = Inr (JObject [(''response'', JString inner_fail)])"
  "mock_parse inner_fail =
     Inr (JObject [(''follows_best_practices'', JBool False),
                   (''suggestions'', JString ''use gofmt'')])"
  "mock_parse body_empty = Inr (JObject [(''response'', JString ''{}'')])"
  "mock_parse ''{}'' = Inr (JObject [])"
  "mock_parse body_array = Inr (JObject [(''response'', JString ''[]'')])"
  "mock_parse ''[]'' = Inr (JArray [])"
  "mock_parse body_extra = Inr (JObject [(''response'', JString inner_extra)])"
  "mock_parse inner_extra = Inr (JObject [(''verdict'', JString ''fine'')])"
  "mock_parse ''<html>'' = Inl ''invalid character''"
  "mock_parse body_null = Inr (JObject [(''response'', JString ''null'')])"
  "mock_parse ''null'' = Inr JNull"
  "mock_parse body_mistyped = Inr (JObject [(''response'', JString inner_mistyped)])"
  "mock_parse inner_mistyped = Inr (JObject [(''follows_best_practices'', JString ''yes'')])"
  "mock_parse body_folded = Inr (JObject [(''response'', JString inner_folded)])"
  "mock_parse inner_folded = Inr (JObject [(''Suggestions'', JString ''rename it'')])"
  by (simp_all add: mock_parse_def mock_json_def body_pass_def inner_pass_def body_fail_def
      inner_fail_def body_empty_def body_array_def body_extra_def inner_extra_def
      body_null_def body_mistyped_def inner_mistyped_def body_folded_def inner_folded_def)

lemmas mock_eval =
  mock_sel mock_parse_simps mock_ReadFile_def mock_Do_def mock_Marshal
  loop_body_def queryLLM_def NewRequest_def Header_Add_def itoa_ollamaPort
  Unmarshal_ollamaResponse_def Unmarshal_LLMResponse_def
  decode_ollamaResponse_def decode_LLMResponse_def field_of_key_def
  HasSuffix_def rune_step_def summary_def
  RuneCount_content_8000 RuneCount_content_8001 RuneCount_content_wide

lemma loop_skips_README:
  "loop mock (replicate n ''README.md'' @ files) warn w = loop mock files warn w"
  by (induction n) (simp_all add: loop_body_def HasSuffix_def)

section \<open>The claims\<close>

text \<open>
  Claim C1. A file that was read, is within the size limit and got a verdict with
  \<^verbatim>\<open>follows_best_practices = false\<close> is reported: after the events of the query, its turn
  prints the line that names the file, the line with the suggestions and the rule. The
  flag is then set and stays set, so after the turns of the remaining files the last line
  printed is the aggregate warning.
\<close>

theorem failing_verdict_reported:
  assumes "length files \<le> 20" and "i < length files"
    and "loop env (take i files) False w = (warn_i, pre, w_i)"
    and "HasSuffix (files ! i) ''.go''"
    and "os_ReadFile env (files ! i) w_i = (Inr content, w1)"
    and "RuneCountInString content \<le> 8000"
    and "queryLLM env (files ! i) content w1 = (Inr verdict, evs, w2)"
    and "\<not> FollowsBestPractices verdict"
    and "loop env (drop (Suc i) files) True w2 = (warn', post, w')"
  shows "main env files w =
    (0,
     GoStartOllama # pre @
       (FileRead (files ! i) # evs @
        [Stdout (NL @ ''File: '' @ files ! i @ '' does not follow best practices:'' @ NL),
         Stdout (''Suggestions: '' @ Suggestions verdict @ NL),
         Stdout (''--------------------------------------------'' @ NL)])
       @ post @
       [Stdout (NL @ ''Warning: Some files do not follow Golang best practices. Please review the suggestions above.'' @ NL)],
     w')"
proof -
  have b: "loop_body env (files ! i) warn_i w_i =
    (True,
     FileRead (files ! i) # evs @
        [Stdout (NL @ ''File: '' @ files ! i @ '' does not follow best practices:'' @ NL),
         Stdout (''Suggestions: '' @ Suggestions verdict @ NL),
         Stdout (''--------------------------------------------'' @ NL)],
     w2)"
    using assms(4-8) by (simp add: loop_body_def)
  have "warn'" using assms(9) by (rule loop_warn_True)
  then show ?thesis
    using main_split [OF assms(1-3) b assms(9)] by (simp add: summary_def)
qed

theorem failing_verdict_reported_witness:
  "main mock [''good.go'', ''bad.go'', ''good.go'']
     \<lparr>disk = [(''good.go'', ''package good''), (''bad.go'', ''package bad'')],
      replies = [Inr (Inr body_pass), Inr (Inr body_fail), Inr (Inr body_pass)]\<rparr> =
     (0,
      [GoStartOllama,
       FileRead ''good.go'',
       HttpDo \<lparr>Method = ''POST'', URL = ''http://127.0.0.1:11435/api/generate'',
               Header = [(''Content-Type'', ''application/json'')],
               Body = ''File to check:'' @ NL @ ''Filename: good.go'' @ NL @ ''Content:'' @ NL
                        @ ''package good''\<rparr>,
       FileRead ''bad.go'',
       HttpDo \<lparr>Method = ''POST'', URL = ''http://127.0.0.1:11435/api/generate'',
               Header = [(''Content-Type'', ''application/json'')],
               Body = ''File to check:'' @ NL @ ''Filename: bad.go'' @ NL @ ''Content:'' @ NL
                        @ ''package bad''\<rparr>,
       Stdout (NL @ ''File: bad.go does not follow best practices:'' @ NL),
       Stdout (''Suggestions: use gofmt'' @ NL),
       Stdout (''--------------------------------------------'' @ NL),
       FileRead ''good.go'',
       HttpDo \<lparr>Method = ''POST'', URL = ''http://127.0.0.1:11435/api/generate'',
               Header = [(''Content-Type'', ''application/json'')],
               Body = ''File to check:'' @ NL @ ''Filename: good.go'' @ NL @ ''Content:'' @ NL
                        @ ''package good''\<rparr>,
       Stdout (NL @ ''Warning: Some files do not follow Golang best practices. Please review the suggestions above.'' @ NL)],
      \<lparr>disk = [(''good.go'', ''package good''), (''bad.go'', ''package bad'')], replies = []\<rparr>)"
proof -
  let ?d = "[(''good.go'', ''package good''), (''bad.go'', ''package bad'')]"
  let ?w = "\<lparr>disk = ?d,
             replies = [Inr (Inr body_pass), Inr (Inr body_fail), Inr (Inr body_pass)]\<rparr>"
  let ?w1 = "\<lparr>disk = ?d, replies = [Inr (Inr body_fail), Inr (Inr body_pass)]\<rparr>"
  let ?w2 = "\<lparr>disk = ?d, replies = [Inr (Inr body_pass)]\<rparr>"
  let ?w3 = "\<lparr>disk = ?d, replies = []\<rparr>"
  let ?files = "[''good.go'', ''bad.go'', ''good.go'']"
  let ?req = "\<lambda>name content.
     HttpDo \<lparr>Method = ''POST'', URL = ''http://127.0.0.1:11435/api/generate'',
             Header = [(''Content-Type'', ''application/json'')],
             Body = ''File to check:'' @ NL @ ''Filename: '' @ name @ NL @ ''Content:'' @ NL
                      @ content\<rparr>"
  have h1: "length ?files \<le> 20" and h2: "1 < length ?files" by simp_all
  have h3: "loop mock (take 1 ?files) False ?w =
      (False, [FileRead ''good.go'', ?req ''good.go'' ''package good''], ?w1)"
    by (simp add: mock_eval)
  have h4: "HasSuffix (?files ! 1) ''.go''" by (simp add: HasSuffix_def)
  have h5: "os_ReadFile mock (?files ! 1) ?w1 = (Inr ''package bad'', ?w1)"
    by (simp add: mock_sel mock_ReadFile_def)
  have h6: "RuneCountInString ''package bad'' \<le> 8000"
    by (simp add: rune_step_def)
  have h7: "queryLLM mock (?files ! 1) ''package bad'' ?w1 =
      (Inr \<lparr>FollowsBestPractices = False, Suggestions = ''use gofmt''\<rparr>,
       [?req ''bad.go'' ''package bad''], ?w2)"
    by (simp add: mock_eval)
  have h8: "\<not> FollowsBestPractices \<lparr>FollowsBestPractices = False, Suggestions = ''use gofmt''\<rparr>"
    by simp
  have h9: "loop mock (drop (Suc 1) ?files) True ?w2 =
      (True, [FileRead ''good.go'', ?req ''good.go'' ''package good''], ?w3)"
    by (simp add: mock_eval)
  show ?thesis
    using failing_verdict_reported [OF h1 h2 h3 h4 h5 h6 h7 h8 h9] by simp
qed

text \<open>
  Claim C2. With more than 20 files the program prints one line and exits with status 0:
  it reads no file and sends no request, and leaves the world as it found it.
\<close>

theorem more_than_20_files_abort:
  assumes "length files > 20"
  shows "main env files w =
    (0,
     [GoStartOllama,
      Stdout (''Skipping as analysing more than 20 files would take too long'' @ NL)],
     w)"
  using assms by (auto simp: main_def)

theorem more_than_20_files_abort_witness:
  "main mock (replicate 21 ''main.go'')
     \<lparr>disk = [(''main.go'', ''package main'')], replies = []\<rparr> =
    (0,
     [GoStartOllama,
      Stdout (''Skipping as analysing more than 20 files would take too long'' @ NL)],
     \<lparr>disk = [(''main.go'', ''package main'')], replies = []\<rparr>)"
  using more_than_20_files_abort [of "replicate 21 ''main.go''" mock]
  by simp

text \<open>
  Claim C3. A \<^verbatim>\<open>.go\<close> file that was read and has more than 8000 runes is skipped: its
  turn is the read and one printed line that names the file, no request is sent, the flag
  is unchanged, and the loop goes on with the next file from the world the read left.
  In any run, every request sent carries a content of at most 8000 runes.
\<close>

theorem oversized_file_skipped:
  "(\<forall>i warn_i pre w_i content w1 warn' post w'.
      length files \<le> 20 \<and> i < length files \<and>
      loop env (take i files) False w = (warn_i, pre, w_i) \<and>
      HasSuffix (files ! i) ''.go'' \<and>
      os_ReadFile env (files ! i) w_i = (Inr content, w1) \<and>
      RuneCountInString content > 8000 \<and>
      loop env (drop (Suc i) files) warn_i w1 = (warn', post, w')
      \<longrightarrow>
      main env files w =
        (0,
         GoStartOllama # pre @
           [FileRead (files ! i),
            Stdout (''Skipping file '' @ files ! i @ '' as it has more than 8000 characters''
                      @ NL)]
           @ post @ [summary warn'],
         w'))
   \<and> (\<forall>req. HttpDo req \<in> set (fst (snd (main env files w))) \<longrightarrow>
         (\<exists>file content w0 w1.
            file \<in> set files \<and>
            os_ReadFile env file w0 = (Inr content, w1) \<and>
            RuneCountInString content \<le> 8000 \<and>
            json_Marshal env
              \<lparr>Model = ''qwen2.5-coder:7b'',
               Prompt = ''File to check:'' @ NL @ ''Filename: '' @ file @ NL
                          @ ''Content:'' @ NL @ content,
               Format = ''json'', System = system_prompt, Stream = False\<rparr> = Inr (Body req)))"
proof (intro conjI allI impI)
  fix i warn_i pre w_i content w1 warn' post w'
  assume h: "length files \<le> 20 \<and> i < length files \<and>
      loop env (take i files) False w = (warn_i, pre, w_i) \<and>
      HasSuffix (files ! i) ''.go'' \<and>
      os_ReadFile env (files ! i) w_i = (Inr content, w1) \<and>
      RuneCountInString content > 8000 \<and>
      loop env (drop (Suc i) files) warn_i w1 = (warn', post, w')"
  then have b: "loop_body env (files ! i) warn_i w_i =
    (warn_i,
     [FileRead (files ! i),
      Stdout (''Skipping file '' @ files ! i @ '' as it has more than 8000 characters'' @ NL)],
     w1)"
    by (simp add: loop_body_def)
  from h show "main env files w =
        (0,
         GoStartOllama # pre @
           [FileRead (files ! i),
            Stdout (''Skipping file '' @ files ! i @ '' as it has more than 8000 characters''
                      @ NL)]
           @ post @ [summary warn'],
         w')"
    using main_split [where i = i and files = files and env = env and w = w
        and warn_i = warn_i and pre = pre and w_i = w_i, OF _ _ _ b]
    by simp
next
  fix req
  assume "HttpDo req \<in> set (fst (snd (main env files w)))"
  from main_request [OF this]
  show "\<exists>file content w0 w1.
            file \<in> set files \<and>
            os_ReadFile env file w0 = (Inr content, w1) \<and>
            RuneCountInString content \<le> 8000 \<and>
            json_Marshal env
              \<lparr>Model = ''qwen2.5-coder:7b'',
               Prompt = ''File to check:'' @ NL @ ''Filename: '' @ file @ NL
                          @ ''Content:'' @ NL @ content,
               Format = ''json'', System = system_prompt, Stream = False\<rparr> = Inr (Body req)"
    by blast
qed

theorem oversized_file_skipped_witness:
  "main mock [''big.go'', ''good.go'']
     \<lparr>disk = [(''big.go'', content_8001), (''good.go'', ''package good'')],
      replies = [Inr (Inr body_pass)]\<rparr> =
     (0,
      [GoStartOllama,
       FileRead ''big.go'',
       Stdout (''Skipping file big.go as it has more than 8000 characters'' @ NL),
       FileRead ''good.go'',
       HttpDo \<lparr>Method = ''POST'', URL = ''http://127.0.0.1:11435/api/generate'',
               Header = [(''Content-Type'', ''application/json'')],
               Body = ''File to check:'' @ NL @ ''Filename: good.go'' @ NL @ ''Content:'' @ NL
                        @ ''package good''\<rparr>,
       Stdout (''All checked files follow Golang best practices.'' @ NL)],
      \<lparr>disk = [(''big.go'', content_8001), (''good.go'', ''package good'')], replies = []\<rparr>)"
proof -
  let ?w = "\<lparr>disk = [(''big.go'', content_8001), (''good.go'', ''package good'')],
             replies = [Inr (Inr body_pass)]\<rparr>"
  let ?files = "[''big.go'', ''good.go'']"
  have h1: "length ?files \<le> 20" and h2: "0 < length ?files" by simp_all
  have h3: "loop mock (take 0 ?files) False ?w = (False, [], ?w)" by simp
  have h4: "HasSuffix (?files ! 0) ''.go''" by (simp add: HasSuffix_def)
  have h5: "os_ReadFile mock (?files ! 0) ?w = (Inr content_8001, ?w)"
    by (simp add: mock_sel mock_ReadFile_def)
  have h6: "RuneCountInString content_8001 > 8000"
    by (simp add: RuneCount_content_8001)
  have h7: "loop mock (drop (Suc 0) ?files) False ?w =
    (False,
     [FileRead ''good.go'',
      HttpDo \<lparr>Method = ''POST'', URL = ''http://127.0.0.1:11435/api/generate'',
              Header = [(''Content-Type'', ''application/json'')],
              Body = ''File to check:'' @ NL @ ''Filename: good.go'' @ NL @ ''Content:'' @ NL
                       @ ''package good''\<rparr>],
     \<lparr>disk = [(''big.go'', content_8001), (''good.go'', ''package good'')], replies = []\<rparr>)"
    by (simp add: mock_eval)
  from oversized_file_skipped [of ?files mock ?w] h1 h2 h3 h4 h5 h6 h7
  have "main mock ?files ?w =
      (0,
       GoStartOllama # [] @
         [FileRead (?files ! 0),
          Stdout (''Skipping file '' @ ?files ! 0 @ '' as it has more than 8000 characters''
                    @ NL)]
         @ [FileRead ''good.go'',
            HttpDo \<lparr>Method = ''POST'', URL = ''http://127.0.0.1:11435/api/generate'',
                    Header = [(''Content-Type'', ''application/json'')],
                    Body = ''File to check:'' @ NL @ ''Filename: good.go'' @ NL @ ''Content:'' @ NL
                             @ ''package good''\<rparr>]
         @ [summary False],
       \<lparr>disk = [(''big.go'', content_8001), (''good.go'', ''package good'')], replies = []\<rparr>)"
    by blast
  then show ?thesis by (simp add: summary_def)
qed

text \<open>
  Claim C4. A file whose path does not end in \<^verbatim>\<open>.go\<close> takes a turn of the loop that does
  nothing: no read, no request, no line printed, the flag and the world unchanged. The
  run is the turns of the files before it followed by the turns of the files after it.
  In any run, whatever the number of files, every path read ends in \<^verbatim>\<open>.go\<close> and every
  request sent is the request for a file whose path ends in \<^verbatim>\<open>.go\<close>.
\<close>

theorem other_extension_skipped:
  "(\<forall>i warn_i pre w_i warn' post w'.
      length files \<le> 20 \<and> i < length files \<and>
      loop env (take i files) False w = (warn_i, pre, w_i) \<and>
      \<not> HasSuffix (files ! i) ''.go'' \<and>
      loop env (drop (Suc i) files) warn_i w_i = (warn', post, w')
      \<longrightarrow>
      loop_body env (files ! i) warn_i w_i = (warn_i, [], w_i) \<and>
      main env files w = (0, GoStartOllama # pre @ post @ [summary warn'], w'))
   \<and> (\<forall>p. FileRead p \<in> set (fst (snd (main env files w))) \<longrightarrow> HasSuffix p ''.go'')
   \<and> (\<forall>req. HttpDo req \<in> set (fst (snd (main env files w))) \<longrightarrow>
         (\<exists>file content.
            file \<in> set files \<and> HasSuffix file ''.go'' \<and>
            json_Marshal env
              \<lparr>Model = ''qwen2.5-coder:7b'',
               Prompt = ''File to check:'' @ NL @ ''Filename: '' @ file @ NL
                          @ ''Content:'' @ NL @ content,
               Format = ''json'', System = system_prompt, Stream = False\<rparr> = Inr (Body req)))"
proof (intro conjI allI impI)
  fix i warn_i pre w_i warn' post w'
  assume h: "length files \<le> 20 \<and> i < length files \<and>
      loop env (take i files) False w = (warn_i, pre, w_i) \<and>
      \<not> HasSuffix (files ! i) ''.go'' \<and>
      loop env (drop (Suc i) files) warn_i w_i = (warn', post, w')"
  then show b: "loop_body env (files ! i) warn_i w_i = (warn_i, [], w_i)"
    by (simp add: loop_body_def)
  from h show "main env files w = (0, GoStartOllama # pre @ post @ [summary warn'], w')"
    using main_split [where i = i and files = files and env = env and w = w
        and warn_i = warn_i and pre = pre and w_i = w_i, OF _ _ _ b]
    by simp
next
  fix p
  assume "FileRead p \<in> set (fst (snd (main env files w)))"
  from main_read [OF this] show "HasSuffix p ''.go''" by simp
next
  fix req
  assume "HttpDo req \<in> set (fst (snd (main env files w)))"
  from main_request [OF this]
  show "\<exists>file content.
            file \<in> set files \<and> HasSuffix file ''.go'' \<and>
            json_Marshal env
              \<lparr>Model = ''qwen2.5-coder:7b'',
               Prompt = ''File to check:'' @ NL @ ''Filename: '' @ file @ NL
                          @ ''Content:'' @ NL @ content,
               Format = ''json'', System = system_prompt, Stream = False\<rparr> = Inr (Body req)"
    by blast
qed

theorem other_extension_skipped_witness:
  "loop_body mock ''README.md'' False
     \<lparr>disk = [(''README.md'', ''# hook''), (''bad.go'', ''package bad'')],
      replies = [Inr (Inr body_fail)]\<rparr> =
     (False, [],
      \<lparr>disk = [(''README.md'', ''# hook''), (''bad.go'', ''package bad'')],
       replies = [Inr (Inr body_fail)]\<rparr>) \<and>
   main mock [''README.md'', ''bad.go'']
     \<lparr>disk = [(''README.md'', ''# hook''), (''bad.go'', ''package bad'')],
      replies = [Inr (Inr body_fail)]\<rparr> =
     (0,
      [GoStartOllama,
       FileRead ''bad.go'',
       HttpDo \<lparr>Method = ''POST'', URL = ''http://127.0.0.1:11435/api/generate'',
               Header = [(''Content-Type'', ''application/json'')],
               Body = ''File to check:'' @ NL @ ''Filename: bad.go'' @ NL @ ''Content:'' @ NL
                        @ ''package bad''\<rparr>,
       Stdout (NL @ ''File: bad.go does not follow best practices:'' @ NL),
       Stdout (''Suggestions: use gofmt'' @ NL),
       Stdout (''--------------------------------------------'' @ NL),
       Stdout (NL @ ''Warning: Some files do not follow Golang best practices. Please review the suggestions above.'' @ NL)],
      \<lparr>disk = [(''README.md'', ''# hook''), (''bad.go'', ''package bad'')], replies = []\<rparr>)"
proof -
  let ?w = "\<lparr>disk = [(''README.md'', ''# hook''), (''bad.go'', ''package bad'')],
             replies = [Inr (Inr body_fail)]\<rparr>"
  let ?files = "[''README.md'', ''bad.go'']"
  have h1: "length ?files \<le> 20" and h2: "0 < length ?files" by simp_all
  have h3: "loop mock (take 0 ?files) False ?w = (False, [], ?w)" by simp
  have h4: "\<not> HasSuffix (?files ! 0) ''.go''" by (simp add: HasSuffix_def)
  have h5: "loop mock (drop (Suc 0) ?files) False ?w =
    (True,
      [FileRead ''bad.go'',
       HttpDo \<lparr>Method = ''POST'', URL = ''http://127.0.0.1:11435/api/generate'',
               Header = [(''Content-Type'', ''application/json'')],
               Body = ''File to check:'' @ NL @ ''Filename: bad.go'' @ NL @ ''Content:'' @ NL
                        @ ''package bad''\<rparr>,
       Stdout (NL @ ''File: bad.go does not follow best practices:'' @ NL),
       Stdout (''Suggestions: use gofmt'' @ NL),
       Stdout (''--------------------------------------------'' @ NL)],
     \<lparr>disk = [(''README.md'', ''# hook''), (''bad.go'', ''package bad'')], replies = []\<rparr>)"
    by (simp add: mock_eval)
  from other_extension_skipped [of ?files mock ?w] h1 h2 h3 h4 h5
  have "loop_body mock (?files ! 0) False ?w = (False, [], ?w) \<and>
      main mock ?files ?w =
        (0,
         GoStartOllama # [] @
           [FileRead ''bad.go'',
            HttpDo \<lparr>Method = ''POST'', URL = ''http://127.0.0.1:11435/api/generate'',
                    Header = [(''Content-Type'', ''application/json'')],
                    Body = ''File to check:'' @ NL @ ''Filename: bad.go'' @ NL @ ''Content:'' @ NL
                             @ ''package bad''\<rparr>,
            Stdout (NL @ ''File: bad.go does not follow best practices:'' @ NL),
            Stdout (''Suggestions: use gofmt'' @ NL),
            Stdout (''--------------------------------------------'' @ NL)]
           @ [summary True],
         \<lparr>disk = [(''README.md'', ''# hook''), (''bad.go'', ''package bad'')], replies = []\<rparr>)"
    by blast
  then show ?thesis by (simp add: summary_def)
qed

text \<open>
  Claim C5. A turn that fails (the file cannot be read, the request fails, the response
  body cannot be read, the body is not an envelope, or the text inside the envelope is
  not a verdict) prints one line that names the file and carries the error, leaves the
  flag as it was, and the loop goes on with every remaining file.
\<close>

theorem per_file_errors_not_fatal:
  assumes "length files \<le> 20" and "i < length files"
    and "loop env (take i files) False w = (warn_i, pre, w_i)"
    and "HasSuffix (files ! i) ''.go''"
    and failure:
      "(\<exists>err. os_ReadFile env (files ! i) w_i = (Inl err, w2) \<and> evs = [] \<and>
          msg = ''Error reading file '' @ files ! i @ '': '' @ err)
       \<or> (\<exists>content w1 body req.
            os_ReadFile env (files ! i) w_i = (Inr content, w1) \<and>
            RuneCountInString content \<le> 8000 \<and>
            json_Marshal env
              \<lparr>Model = ''qwen2.5-coder:7b'',
               Prompt = ''File to check:'' @ NL @ ''Filename: '' @ files ! i @ NL
                          @ ''Content:'' @ NL @ content,
               Format = ''json'', System = system_prompt, Stream = False\<rparr> = Inr body \<and>
            req = \<lparr>Method = ''POST'', URL = ''http://127.0.0.1:11435/api/generate'',
                   Header = [(''Content-Type'', ''application/json'')], Body = body\<rparr> \<and>
            evs = [HttpDo req] \<and>
            ((\<exists>err. client_Do env req w1 = (Inl err, w2) \<and>
                msg = ''Error querying LLM for file '' @ files ! i
                        @ '': error running ollama command'')
             \<or> (\<exists>err. client_Do env req w1 = (Inr (Inl err), w2) \<and>
                msg = ''Error querying LLM for file '' @ files ! i
                        @ '': error reading response body '' @ err)
             \<or> (\<exists>reply err. client_Do env req w1 = (Inr (Inr reply), w2) \<and>
                Unmarshal_ollamaResponse env reply = Inl err \<and>
                msg = ''Error querying LLM for file '' @ files ! i
                        @ '': error unmarshalling response: '' @ err)
             \<or> (\<exists>reply oResp err. client_Do env req w1 = (Inr (Inr reply), w2) \<and>
                Unmarshal_ollamaResponse env reply = Inr oResp \<and>
                Unmarshal_LLMResponse env (Response oResp) = Inl err \<and>
                msg = ''Error querying LLM for file '' @ files ! i
                        @ '': error unmarshalling LLM response: '' @ err)))"
    and "loop env (drop (Suc i) files) warn_i w2 = (warn', post, w')"
  shows "main env files w =
    (0,
     GoStartOllama # pre @ (FileRead (files ! i) # evs @ [Stdout (msg @ NL)]) @ post
       @ [summary warn'],
     w')"
proof -
  have b: "loop_body env (files ! i) warn_i w_i =
      (warn_i, FileRead (files ! i) # evs @ [Stdout (msg @ NL)], w2)"
    using failure assms(4)
    by (elim disjE exE conjE)
       (simp_all add: loop_body_def queryLLM_def NewRequest_def Header_Add_def itoa_ollamaPort)
  show ?thesis
    using main_split [OF assms(1-3) b assms(6)] by simp
qed

theorem per_file_errors_not_fatal_witness:
  "main mock [''missing.go'', ''a.go'', ''b.go'', ''c.go'', ''good.go'']
     \<lparr>disk = [(''a.go'', ''package a''), (''b.go'', ''package b''), (''c.go'', ''package c''),
               (''good.go'', ''package good'')],
      replies = [Inl ''connection refused'', Inr (Inr ''<html>''), Inr (Inr body_array),
                 Inr (Inr body_pass)]\<rparr> =
     (0,
      [GoStartOllama,
       FileRead ''missing.go'',
       Stdout (''Error reading file missing.go: open missing.go: no such file or directory'' @ NL),
       FileRead ''a.go'',
       HttpDo \<lparr>Method = ''POST'', URL = ''http://127.0.0.1:11435/api/generate'',
               Header = [(''Content-Type'', ''application/json'')],
               Body = ''File to check:'' @ NL @ ''Filename: a.go'' @ NL @ ''Content:'' @ NL
                        @ ''package a''\<rparr>,
       Stdout (''Error querying LLM for file a.go: error running ollama command'' @ NL),
       FileRead ''b.go'',
       HttpDo \<lparr>Method = ''POST'', URL = ''http://127.0.0.1:11435/api/generate'',
               Header = [(''Content-Type'', ''application/json'')],
               Body = ''File to check:'' @ NL @ ''Filename: b.go'' @ NL @ ''Content:'' @ NL
                        @ ''package b''\<rparr>,
       Stdout (''Error querying LLM for file b.go: error unmarshalling response: invalid character'' @ NL),
       FileRead ''c.go'',
       HttpDo \<lparr>Method = ''POST'', URL = ''http://127.0.0.1:11435/api/generate'',
               Header = [(''Content-Type'', ''application/json'')],
               Body = ''File to check:'' @ NL @ ''Filename: c.go'' @ NL @ ''Content:'' @ NL
                        @ ''package c''\<rparr>,
       Stdout (''Error querying LLM for file c.go: error unmarshalling LLM response: json: cannot unmarshal array into Go value of type main.LLMResponse'' @ NL),
       FileRead ''good.go'',
       HttpDo \<lparr>Method = ''POST'', URL = ''http://127.0.0.1:11435/api/generate'',
               Header = [(''Content-Type'', ''application/json'')],
               Body = ''File to check:'' @ NL @ ''Filename: good.go'' @ NL @ ''Content:'' @ NL
                        @ ''package good''\<rparr>,
       Stdout (''All checked files follow Golang best practices.'' @ NL)],
      \<lparr>disk = [(''a.go'', ''package a''), (''b.go'', ''package b''), (''c.go'', ''package c''),
               (''good.go'', ''package good'')], replies = []\<rparr>)"
proof -
  let ?d = "[(''a.go'', ''package a''), (''b.go'', ''package b''), (''c.go'', ''package c''),
               (''good.go'', ''package good'')]"
  let ?w = "\<lparr>disk = ?d,
      replies = [Inl ''connection refused'', Inr (Inr ''<html>''), Inr (Inr body_array),
                 Inr (Inr body_pass)]\<rparr>"
  let ?w1 = "\<lparr>disk = ?d,
      replies = [Inr (Inr ''<html>''), Inr (Inr body_array), Inr (Inr body_pass)]\<rparr>"
  let ?w2 = "\<lparr>disk = ?d, replies = [Inr (Inr body_array), Inr (Inr body_pass)]\<rparr>"
  let ?w3 = "\<lparr>disk = ?d, replies = []\<rparr>"
  let ?files = "[''missing.go'', ''a.go'', ''b.go'', ''c.go'', ''good.go'']"
  let ?body = "''File to check:'' @ NL @ ''Filename: b.go'' @ NL @ ''Content:'' @ NL @ ''package b''"
  let ?req = "\<lparr>Method = ''POST'', URL = ''http://127.0.0.1:11435/api/generate'',
               Header = [(''Content-Type'', ''application/json'')], Body = ?body\<rparr>"
  have h1: "length ?files \<le> 20" and h2: "2 < length ?files" by simp_all
  have h3: "loop mock (take 2 ?files) False ?w =
      (False,
       [FileRead ''missing.go'',
        Stdout (''Error reading file missing.go: open missing.go: no such file or directory'' @ NL),
        FileRead ''a.go'',
        HttpDo \<lparr>Method = ''POST'', URL = ''http://127.0.0.1:11435/api/generate'',
               Header = [(''Content-Type'', ''application/json'')],
               Body = ''File to check:'' @ NL @ ''Filename: a.go'' @ NL @ ''Content:'' @ NL
                        @ ''package a''\<rparr>,
        Stdout (''Error querying LLM for file a.go: error running ollama command'' @ NL)],
       ?w1)"
    by (simp add: mock_eval)
  have h4: "HasSuffix (?files ! 2) ''.go''" by (simp add: HasSuffix_def)
  have r: "os_ReadFile mock (?files ! 2) ?w1 = (Inr ''package b'', ?w1)"
    by (simp add: mock_sel mock_ReadFile_def)
  have c: "RuneCountInString ''package b'' \<le> 8000" by (simp add: rune_step_def)
  have m: "json_Marshal mock
      \<lparr>Model = ''qwen2.5-coder:7b'',
       Prompt = ''File to check:'' @ NL @ ''Filename: '' @ ?files ! 2 @ NL
                  @ ''Content:'' @ NL @ ''package b'',
       Format = ''json'', System = system_prompt, Stream = False\<rparr> = Inr ?body"
    by (simp add: mock_Marshal)
  have d: "client_Do mock ?req ?w1 = (Inr (Inr ''<html>''), ?w2)"
    by (simp add: mock_sel mock_Do_def)
  have u: "Unmarshal_ollamaResponse mock ''<html>'' = Inl ''invalid character''"
    by (simp add: Unmarshal_ollamaResponse_def mock_sel mock_parse_simps)
  have h6: "loop mock (drop (Suc 2) ?files) False ?w2 =
      (False,
       [FileRead ''c.go'',
        HttpDo \<lparr>Method = ''POST'', URL = ''http://127.0.0.1:11435/api/generate'',
               Header = [(''Content-Type'', ''application/json'')],
               Body = ''File to check:'' @ NL @ ''Filename: c.go'' @ NL @ ''Content:'' @ NL
                        @ ''package c''\<rparr>,
        Stdout (''Error querying LLM for file c.go: error unmarshalling LLM response: json: cannot unmarshal array into Go value of type main.LLMResponse'' @ NL),
        FileRead ''good.go'',
        HttpDo \<lparr>Method = ''POST'', URL = ''http://127.0.0.1:11435/api/generate'',
               Header = [(''Content-Type'', ''application/json'')],
               Body = ''File to check:'' @ NL @ ''Filename: good.go'' @ NL @ ''Content:'' @ NL
                        @ ''package good''\<rparr>],
       ?w3)"
    by (simp add: mock_eval UnmarshalTypeError_value_def)
  show ?thesis
    using per_file_errors_not_fatal [OF h1 h2 h3 h4 _ h6, where evs = "[HttpDo ?req]"
        and msg = "''Error querying LLM for file b.go: error unmarshalling response: invalid character''"]
      r c m d u
    by (simp add: summary_def)
qed

text \<open>
  Claim C6. A file that got a verdict with \<^verbatim>\<open>follows_best_practices = true\<close> prints
  nothing: its turn is the read and the events of the query, none of which is a line of
  output, and it leaves the flag as it was. And when no turn of a run gets a failing
  verdict, the last line printed is the all-clear line, printed once, and the warning
  line is not printed.
\<close>

theorem passing_verdict_not_reported:
  assumes "files \<noteq> []" and "length files \<le> 20"
  shows "(\<forall>i warn_i pre w_i content w1 verdict evs w2 warn' post w'.
            i < length files \<and>
            loop env (take i files) False w = (warn_i, pre, w_i) \<and>
            HasSuffix (files ! i) ''.go'' \<and>
            os_ReadFile env (files ! i) w_i = (Inr content, w1) \<and>
            RuneCountInString content \<le> 8000 \<and>
            queryLLM env (files ! i) content w1 = (Inr verdict, evs, w2) \<and>
            FollowsBestPractices verdict \<and>
            loop env (drop (Suc i) files) warn_i w2 = (warn', post, w')
            \<longrightarrow> (\<forall>s. Stdout s \<notin> set evs) \<and>
                main env files w =
                  (0, GoStartOllama # pre @ (FileRead (files ! i) # evs) @ post @ [summary warn'],
                   w'))
       \<and> ((\<forall>i<length files. \<forall>warn_i pre w_i content w1 verdict evs w2.
              loop env (take i files) False w = (warn_i, pre, w_i) \<and>
              HasSuffix (files ! i) ''.go'' \<and>
              os_ReadFile env (files ! i) w_i = (Inr content, w1) \<and>
              RuneCountInString content \<le> 8000 \<and>
              queryLLM env (files ! i) content w1 = (Inr verdict, evs, w2)
              \<longrightarrow> FollowsBestPractices verdict)
            \<longrightarrow> (\<exists>evs w'.
                  main env files w =
                    (0,
                     GoStartOllama # evs @
                       [Stdout (''All checked files follow Golang best practices.'' @ NL)],
                     w') \<and>
                  Stdout (''All checked files follow Golang best practices.'' @ NL) \<notin> set evs \<and>
                  Stdout (NL @ ''Warning: Some files do not follow Golang best practices. Please review the suggestions above.'' @ NL)
                    \<notin> set evs))"
proof (intro conjI allI impI)
  fix i warn_i pre w_i content w1 verdict evs w2 warn' post w'
  assume h: "i < length files \<and>
            loop env (take i files) False w = (warn_i, pre, w_i) \<and>
            HasSuffix (files ! i) ''.go'' \<and>
            os_ReadFile env (files ! i) w_i = (Inr content, w1) \<and>
            RuneCountInString content \<le> 8000 \<and>
            queryLLM env (files ! i) content w1 = (Inr verdict, evs, w2) \<and>
            FollowsBestPractices verdict \<and>
            loop env (drop (Suc i) files) warn_i w2 = (warn', post, w')"
  then have b: "loop_body env (files ! i) warn_i w_i = (warn_i, FileRead (files ! i) # evs, w2)"
    by (simp add: loop_body_def)
  from h have i: "i < length files"
    and pre: "loop env (take i files) False w = (warn_i, pre, w_i)"
    and post: "loop env (drop (Suc i) files) warn_i w2 = (warn', post, w')"
    and q: "queryLLM env (files ! i) content w1 = (Inr verdict, evs, w2)"
    by simp_all
  show "main env files w =
      (0, GoStartOllama # pre @ (FileRead (files ! i) # evs) @ post @ [summary warn'], w')"
    using main_split [OF assms(2) i pre b post] by simp
  fix s
  show "Stdout s \<notin> set evs"
    using queryLLM_events [OF q] by auto
next
  assume none: "\<forall>i<length files. \<forall>warn_i pre w_i content w1 verdict evs w2.
              loop env (take i files) False w = (warn_i, pre, w_i) \<and>
              HasSuffix (files ! i) ''.go'' \<and>
              os_ReadFile env (files ! i) w_i = (Inr content, w1) \<and>
              RuneCountInString content \<le> 8000 \<and>
              queryLLM env (files ! i) content w1 = (Inr verdict, evs, w2)
              \<longrightarrow> FollowsBestPractices verdict"
  obtain warn' evs w' where l: "loop env files False w = (warn', evs, w')"
    by (cases "loop env files False w") auto
  from loop_without_failing_verdict [OF none l] have "warn' = False" .
  with l assms have "main env files w =
      (0, GoStartOllama # evs @ [Stdout (''All checked files follow Golang best practices.'' @ NL)],
       w')"
    by (simp add: main_def summary_def)
  moreover have
    "Stdout (''All checked files follow Golang best practices.'' @ NL) \<notin> set evs"
    "Stdout (NL @ ''Warning: Some files do not follow Golang best practices. Please review the suggestions above.'' @ NL)
       \<notin> set evs"
    using loop_prints [OF l] by blast+
  ultimately show "\<exists>evs w'. main env files w =
      (0, GoStartOllama # evs @ [Stdout (''All checked files follow Golang best practices.'' @ NL)],
       w') \<and>
      Stdout (''All checked files follow Golang best practices.'' @ NL) \<notin> set evs \<and>
      Stdout (NL @ ''Warning: Some files do not follow Golang best practices. Please review the suggestions above.'' @ NL)
        \<notin> set evs"
    by blast
qed

theorem passing_verdict_not_reported_witness:
  "main mock [''good.go'']
     \<lparr>disk = [(''good.go'', ''package good'')], replies = [Inr (Inr body_pass)]\<rparr> =
     (0,
      [GoStartOllama,
       FileRead ''good.go'',
       HttpDo \<lparr>Method = ''POST'', URL = ''http://127.0.0.1:11435/api/generate'',
               Header = [(''Content-Type'', ''application/json'')],
               Body = ''File to check:'' @ NL @ ''Filename: good.go'' @ NL @ ''Content:'' @ NL
                        @ ''package good''\<rparr>,
       Stdout (''All checked files follow Golang best practices.'' @ NL)],
      \<lparr>disk = [(''good.go'', ''package good'')], replies = []\<rparr>)"
proof -
  let ?w = "\<lparr>disk = [(''good.go'', ''package good'')], replies = [Inr (Inr body_pass)]\<rparr>"
  let ?w1 = "\<lparr>disk = [(''good.go'', ''package good'')], replies = []\<rparr>"
  let ?files = "[''good.go'']"
  let ?req = "HttpDo \<lparr>Method = ''POST'', URL = ''http://127.0.0.1:11435/api/generate'',
               Header = [(''Content-Type'', ''application/json'')],
               Body = ''File to check:'' @ NL @ ''Filename: good.go'' @ NL @ ''Content:'' @ NL
                        @ ''package good''\<rparr>"
  have n1: "?files \<noteq> []" and n2: "length ?files \<le> 20" by simp_all
  have h: "0 < length ?files \<and>
      loop mock (take 0 ?files) False ?w = (False, [], ?w) \<and>
      HasSuffix (?files ! 0) ''.go'' \<and>
      os_ReadFile mock (?files ! 0) ?w = (Inr ''package good'', ?w) \<and>
      RuneCountInString ''package good'' \<le> 8000 \<and>
      queryLLM mock (?files ! 0) ''package good'' ?w =
        (Inr \<lparr>FollowsBestPractices = True, Suggestions = []\<rparr>, [?req], ?w1) \<and>
      FollowsBestPractices \<lparr>FollowsBestPractices = True, Suggestions = []\<rparr> \<and>
      loop mock (drop (Suc 0) ?files) False ?w1 = (False, [], ?w1)"
    by (simp add: mock_eval)
  have none: "\<forall>i<length ?files. \<forall>warn_i pre w_i content w1 verdict evs w2.
      loop mock (take i ?files) False ?w = (warn_i, pre, w_i) \<and>
      HasSuffix (?files ! i) ''.go'' \<and>
      os_ReadFile mock (?files ! i) w_i = (Inr content, w1) \<and>
      RuneCountInString content \<le> 8000 \<and>
      queryLLM mock (?files ! i) content w1 = (Inr verdict, evs, w2)
      \<longrightarrow> FollowsBestPractices verdict"
    by (auto simp: mock_eval)
  note t = passing_verdict_not_reported [of ?files mock ?w, OF n1 n2]
  from t none have "\<exists>evs w'. main mock ?files ?w =
      (0, GoStartOllama # evs @ [Stdout (''All checked files follow Golang best practices.'' @ NL)], w')"
    by blast
  moreover from t h have "main mock ?files ?w =
      (0, GoStartOllama # [] @ (FileRead (?files ! 0) # [?req]) @ [] @ [summary False], ?w1)"
    by blast
  ultimately show ?thesis by (simp add: summary_def)
qed

text \<open>
  Claim C7. On every path (no file, more than 20 files, any mix of per-file errors and
  of passing and failing verdicts) the status \<^verbatim>\<open>main\<close> passes to \<^verbatim>\<open>os.Exit\<close> is 0.
\<close>

theorem exit_status_zero: "fst (main env files w) = 0"
  by (simp add: main_def split: prod.splits)

text \<open>
  Claim C8. For a file that was read and is within the size limit, the turn sends one
  request and otherwise only prints. The request is a POST to
  \<^verbatim>\<open>http://127.0.0.1:11435/api/generate\<close> with the header
  \<^verbatim>\<open>Content-Type: application/json\<close>, and its body is the JSON text of the object with the
  members \<^verbatim>\<open>model\<close> (the fixed model name), \<^verbatim>\<open>prompt\<close> (the file's name and its whole
  content), \<^verbatim>\<open>format\<close> (\<^verbatim>\<open>json\<close>), \<^verbatim>\<open>system\<close> (the fixed system prompt) and \<^verbatim>\<open>stream\<close>
  (\<^verbatim>\<open>false\<close>). Conversely every request of a run has this form, for one of the files and
  a content that \<^verbatim>\<open>os.ReadFile\<close> returned for it.
\<close>

theorem request_for_eligible_file:
  "(\<forall>i warn_i pre w_i content w1 body warn_b evs_b w_b warn' post w'.
      length files \<le> 20 \<and> i < length files \<and>
      loop env (take i files) False w = (warn_i, pre, w_i) \<and>
      HasSuffix (files ! i) ''.go'' \<and>
      os_ReadFile env (files ! i) w_i = (Inr content, w1) \<and>
      RuneCountInString content \<le> 8000 \<and>
      json_encode env
        (JObject
           [(''model'', JString ''qwen2.5-coder:7b''),
            (''prompt'',
             JString (''File to check:'' @ NL @ ''Filename: '' @ files ! i @ NL
                        @ ''Content:'' @ NL @ content)),
            (''format'', JString ''json''),
            (''system'', JString system_prompt),
            (''stream'', JBool False)]) = Inr body \<and>
      loop_body env (files ! i) warn_i w_i = (warn_b, evs_b, w_b) \<and>
      loop env (drop (Suc i) files) warn_b w_b = (warn', post, w')
      \<longrightarrow>
      (\<exists>prints.
         evs_b =
           [FileRead (files ! i),
            HttpDo \<lparr>Method = ''POST'', URL = ''http://127.0.0.1:11435/api/generate'',
                    Header = [(''Content-Type'', ''application/json'')], Body = body\<rparr>]
           @ prints \<and>
         (\<forall>e \<in> set prints. \<exists>s. e = Stdout s)) \<and>
      w_b =
        snd (client_Do env
               \<lparr>Method = ''POST'', URL = ''http://127.0.0.1:11435/api/generate'',
                Header = [(''Content-Type'', ''application/json'')], Body = body\<rparr> w1) \<and>
      main env files w = (0, GoStartOllama # pre @ evs_b @ post @ [summary warn'], w'))
   \<and> (\<forall>req. HttpDo req \<in> set (fst (snd (main env files w))) \<longrightarrow>
        (\<exists>file content w0 w1.
           file \<in> set files \<and> HasSuffix file ''.go'' \<and>
           os_ReadFile env file w0 = (Inr content, w1) \<and>
           RuneCountInString content \<le> 8000 \<and>
           req = \<lparr>Method = ''POST'', URL = ''http://127.0.0.1:11435/api/generate'',
                   Header = [(''Content-Type'', ''application/json'')], Body = Body req\<rparr> \<and>
           json_encode env
             (JObject
                [(''model'', JString ''qwen2.5-coder:7b''),
                 (''prompt'',
                  JString (''File to check:'' @ NL @ ''Filename: '' @ file @ NL
                             @ ''Content:'' @ NL @ content)),
                 (''format'', JString ''json''),
                 (''system'', JString system_prompt),
                 (''stream'', JBool False)]) = Inr (Body req)))"
proof (intro conjI allI impI)
  fix i warn_i pre w_i content w1 body warn_b evs_b w_b warn' post w'
  let ?req = "\<lparr>Method = ''POST'', URL = ''http://127.0.0.1:11435/api/generate'',
                Header = [(''Content-Type'', ''application/json'')], Body = body\<rparr>"
  assume h: "length files \<le> 20 \<and> i < length files \<and>
      loop env (take i files) False w = (warn_i, pre, w_i) \<and>
      HasSuffix (files ! i) ''.go'' \<and>
      os_ReadFile env (files ! i) w_i = (Inr content, w1) \<and>
      RuneCountInString content \<le> 8000 \<and>
      json_encode env
        (JObject
           [(''model'', JString ''qwen2.5-coder:7b''),
            (''prompt'',
             JString (''File to check:'' @ NL @ ''Filename: '' @ files ! i @ NL
                        @ ''Content:'' @ NL @ content)),
            (''format'', JString ''json''),
            (''system'', JString system_prompt),
            (''stream'', JBool False)]) = Inr body \<and>
      loop_body env (files ! i) warn_i w_i = (warn_b, evs_b, w_b) \<and>
      loop env (drop (Suc i) files) warn_b w_b = (warn', post, w')"
  obtain r evq w2 where q: "queryLLM env (files ! i) content w1 = (r, evq, w2)"
    by (cases "queryLLM env (files ! i) content w1") auto
  from h q have q': "evq = [HttpDo ?req] \<and> w2 = snd (client_Do env ?req w1)"
    by (auto simp: queryLLM_def json_Marshal_def NewRequest_def Header_Add_def
                   itoa_ollamaPort Let_def
             split: sum.splits prod.splits)
  from h q q' show "\<exists>prints. evs_b = [FileRead (files ! i), HttpDo ?req] @ prints \<and>
         (\<forall>e \<in> set prints. \<exists>s. e = Stdout s)"
    by (auto simp: loop_body_def split: sum.splits if_splits)
  from h q q' show "w_b = snd (client_Do env ?req w1)"
    by (auto simp: loop_body_def split: sum.splits if_splits)
  from h show "main env files w = (0, GoStartOllama # pre @ evs_b @ post @ [summary warn'], w')"
    by (intro main_split [where i = i and warn_i = warn_i and w_i = w_i and warn_b = warn_b
          and w_b = w_b]) simp_all
next
  fix req
  assume r: "HttpDo req \<in> set (fst (snd (main env files w)))"
  obtain warn' evs w' where l: "loop env files False w = (warn', evs, w')"
    by (cases "loop env files False w") auto
  from r l have "HttpDo req \<in> set evs"
    by (auto simp: main_def summary_def split: if_splits)
  from loop_request [OF l this]
  show "\<exists>file content w0 w1.
           file \<in> set files \<and> HasSuffix file ''.go'' \<and>
           os_ReadFile env file w0 = (Inr content, w1) \<and>
           RuneCountInString content \<le> 8000 \<and>
           req = \<lparr>Method = ''POST'', URL = ''http://127.0.0.1:11435/api/generate'',
                   Header = [(''Content-Type'', ''application/json'')], Body = Body req\<rparr> \<and>
           json_encode env
             (JObject
                [(''model'', JString ''qwen2.5-coder:7b''),
                 (''prompt'',
                  JString (''File to check:'' @ NL @ ''Filename: '' @ file @ NL
                             @ ''Content:'' @ NL @ content)),
                 (''format'', JString ''json''),
                 (''system'', JString system_prompt),
                 (''stream'', JBool False)]) = Inr (Body req)"
    by (simp add: json_Marshal_def)
qed

theorem request_for_eligible_file_witness:
  "main mock [''a.go''] \<lparr>disk = [(''a.go'', ''package a'')], replies = []\<rparr> =
     (0,
      [GoStartOllama,
       FileRead ''a.go'',
       HttpDo \<lparr>Method = ''POST'', URL = ''http://127.0.0.1:11435/api/generate'',
               Header = [(''Content-Type'', ''application/json'')],
               Body = ''File to check:'' @ NL @ ''Filename: a.go'' @ NL @ ''Content:'' @ NL
                        @ ''package a''\<rparr>,
       Stdout (''Error querying LLM for file a.go: error running ollama command'' @ NL),
       Stdout (''All checked files follow Golang best practices.'' @ NL)],
      \<lparr>disk = [(''a.go'', ''package a'')], replies = []\<rparr>)"
proof -
  let ?w = "\<lparr>disk = [(''a.go'', ''package a'')], replies = []\<rparr>"
  let ?files = "[''a.go'']"
  let ?body = "''File to check:'' @ NL @ ''Filename: a.go'' @ NL @ ''Content:'' @ NL @ ''package a''"
  let ?evs = "[FileRead ''a.go'',
       HttpDo \<lparr>Method = ''POST'', URL = ''http://127.0.0.1:11435/api/generate'',
               Header = [(''Content-Type'', ''application/json'')], Body = ?body\<rparr>,
       Stdout (''Error querying LLM for file a.go: error running ollama command'' @ NL)]"
  have h: "length ?files \<le> 20 \<and> 0 < length ?files \<and>
      loop mock (take 0 ?files) False ?w = (False, [], ?w) \<and>
      HasSuffix (?files ! 0) ''.go'' \<and>
      os_ReadFile mock (?files ! 0) ?w = (Inr ''package a'', ?w) \<and>
      RuneCountInString ''package a'' \<le> 8000 \<and>
      json_encode mock
        (JObject
           [(''model'', JString ''qwen2.5-coder:7b''),
            (''prompt'',
             JString (''File to check:'' @ NL @ ''Filename: '' @ ?files ! 0 @ NL
                        @ ''Content:'' @ NL @ ''package a'')),
            (''format'', JString ''json''),
            (''system'', JString system_prompt),
            (''stream'', JBool False)]) = Inr ?body \<and>
      loop_body mock (?files ! 0) False ?w = (False, ?evs, ?w) \<and>
      loop mock (drop (Suc 0) ?files) False ?w = (False, [], ?w)"
    by (simp add: mock_eval mock_encode_def)
  from request_for_eligible_file [of ?files mock ?w] h
  have "main mock ?files ?w = (0, GoStartOllama # [] @ ?evs @ [] @ [summary False], ?w)"
    by blast
  then show ?thesis by (simp add: summary_def)
qed

text \<open>
  Claim C9, as stated, fails: a syntactically valid inner text that is not an object is
  rejected. With the server answering \<^verbatim>\<open>{"response":"[]"}\<close> the inner text \<^verbatim>\<open>[]\<close> is
  an array, decoding it into \<^verbatim>\<open>LLMResponse\<close> is a type error, and the file is skipped
  with an error line instead of being reported as a warning. An object is rejected too
  when it gives a verdict field a value of another type, as
  \<^verbatim>\<open>{"follows_best_practices":"yes"}\<close> does.
\<close>

theorem inner_array_rejected:
  "json_parse mock ''[]'' = Inr (JArray []) \<and>
   decode_LLMResponse (JArray []) =
     Inl ''json: cannot unmarshal array into Go value of type main.LLMResponse'' \<and>
   isl (decode_LLMResponse (JObject [(''follows_best_practices'', JString ''yes'')])) \<and>
   main mock [''list.go'']
     \<lparr>disk = [(''list.go'', ''package list'')], replies = [Inr (Inr body_array)]\<rparr> =
     (0,
      [GoStartOllama,
       FileRead ''list.go'',
       HttpDo \<lparr>Method = ''POST'', URL = ''http://127.0.0.1:11435/api/generate'',
               Header = [(''Content-Type'', ''application/json'')],
               Body = ''File to check:'' @ NL @ ''Filename: list.go'' @ NL @ ''Content:'' @ NL
                        @ ''package list''\<rparr>,
       Stdout (''Error querying LLM for file list.go: error unmarshalling LLM response: json: cannot unmarshal array into Go value of type main.LLMResponse'' @ NL),
       Stdout (''All checked files follow Golang best practices.'' @ NL)],
      \<lparr>disk = [(''list.go'', ''package list'')], replies = []\<rparr>)"
  by (simp add: main_def mock_eval UnmarshalTypeError_value_def saveError_def)

text \<open>
  Claim C9, amended. When the envelope was decoded, what becomes of the file depends on
  the value \<open>j\<close> its inner text denotes, and on nothing else.
  An object is accepted when each member whose key names a verdict field holds a value
  of that field's type or \<^verbatim>\<open>null\<close>; members with other keys are ignored, and a field
  that no member names keeps its zero value, \<^verbatim>\<open>false\<close> or the empty string. The value
  \<^verbatim>\<open>null\<close> is accepted too and leaves both fields at their zero values. An accepted
  text with \<^verbatim>\<open>follows_best_practices\<close> false is reported as a warning, with its
  suggestions, and is not skipped.
  Every other value is a deserialization error and the file is skipped with an error
  line: an array, a string, a number, a boolean, and an object that gives a verdict field
  a value of another type.
  An ASCII key names a verdict field exactly when it equals the field's name up to the
  case of its letters.
\<close>

theorem inner_text_decoding:
  assumes "length files \<le> 20" and "i < length files"
    and "loop env (take i files) False w = (warn_i, pre, w_i)"
    and "HasSuffix (files ! i) ''.go''"
    and "os_ReadFile env (files ! i) w_i = (Inr content, w1)"
    and "RuneCountInString content \<le> 8000"
    and "json_Marshal env
           \<lparr>Model = ''qwen2.5-coder:7b'',
            Prompt = ''File to check:'' @ NL @ ''Filename: '' @ files ! i @ NL
                       @ ''Content:'' @ NL @ content,
            Format = ''json'', System = system_prompt, Stream = False\<rparr> = Inr body"
    and "client_Do env
           \<lparr>Method = ''POST'', URL = ''http://127.0.0.1:11435/api/generate'',
            Header = [(''Content-Type'', ''application/json'')], Body = body\<rparr> w1
         = (Inr (Inr reply), w2)"
    and "Unmarshal_ollamaResponse env reply = Inr oResp"
    and "json_parse env (Response oResp) = Inr j"
  shows "(\<forall>members.
      j = JObject members \<and>
      (\<forall>(key, item) \<in> set members.
         (field_of_key [''follows_best_practices'', ''suggestions''] key = Some ''follows_best_practices''
            \<longrightarrow> item = JNull \<or> (\<exists>b. item = JBool b)) \<and>
         (field_of_key [''follows_best_practices'', ''suggestions''] key = Some ''suggestions''
            \<longrightarrow> item = JNull \<or> (\<exists>s. item = JString s)))
      \<longrightarrow>
      (\<exists>verdict.
         queryLLM env (files ! i) content w1 =
         (Inr verdict,
          [HttpDo \<lparr>Method = ''POST'', URL = ''http://127.0.0.1:11435/api/generate'',
            Header = [(''Content-Type'', ''application/json'')], Body = body\<rparr>],
          w2) \<and>
         ((\<forall>(key, item) \<in> set members.
             field_of_key [''follows_best_practices'', ''suggestions''] key \<noteq> Some ''follows_best_practices'')
          \<longrightarrow> \<not> FollowsBestPractices verdict) \<and>
         ((\<forall>(key, item) \<in> set members.
             field_of_key [''follows_best_practices'', ''suggestions''] key \<noteq> Some ''suggestions'')
          \<longrightarrow> Suggestions verdict = []) \<and>
         (\<not> FollowsBestPractices verdict \<longrightarrow>
          (\<forall>warn' post w'.
         loop env (drop (Suc i) files) True w2 = (warn', post, w') \<longrightarrow>
         main env files w =
           (0,
            GoStartOllama # pre @
              [FileRead (files ! i),
               HttpDo \<lparr>Method = ''POST'', URL = ''http://127.0.0.1:11435/api/generate'',
            Header = [(''Content-Type'', ''application/json'')], Body = body\<rparr>,
               Stdout (NL @ ''File: '' @ files ! i @ '' does not follow best practices:'' @ NL),
               Stdout (''Suggestions: '' @ Suggestions verdict @ NL),
               Stdout (''--------------------------------------------'' @ NL)]
              @ post @
              [Stdout (NL @ ''Warning: Some files do not follow Golang best practices. Please review the suggestions above.'' @ NL)],
            w')))))
   \<and> (j = JNull \<longrightarrow>
      queryLLM env (files ! i) content w1 =
         (Inr \<lparr>FollowsBestPractices = False, Suggestions = []\<rparr>,
          [HttpDo \<lparr>Method = ''POST'', URL = ''http://127.0.0.1:11435/api/generate'',
            Header = [(''Content-Type'', ''application/json'')], Body = body\<rparr>],
          w2) \<and>
      (\<forall>warn' post w'.
         loop env (drop (Suc i) files) True w2 = (warn', post, w') \<longrightarrow>
         main env files w =
           (0,
            GoStartOllama # pre @
              [FileRead (files ! i),
               HttpDo \<lparr>Method = ''POST'', URL = ''http://127.0.0.1:11435/api/generate'',
            Header = [(''Content-Type'', ''application/json'')], Body = body\<rparr>,
               Stdout (NL @ ''File: '' @ files ! i @ '' does not follow best practices:'' @ NL),
               Stdout (''Suggestions: '' @ [] @ NL),
               Stdout (''--------------------------------------------'' @ NL)]
              @ post @
              [Stdout (NL @ ''Warning: Some files do not follow Golang best practices. Please review the suggestions above.'' @ NL)],
            w')))
   \<and> (j \<noteq> JNull \<and> (\<forall>members. j \<noteq> JObject members) \<longrightarrow>
      queryLLM env (files ! i) content w1 =
         (Inl (''error unmarshalling LLM response: '' @ UnmarshalTypeError_value j ''main.LLMResponse''),
          [HttpDo \<lparr>Method = ''POST'', URL = ''http://127.0.0.1:11435/api/generate'',
            Header = [(''Content-Type'', ''application/json'')], Body = body\<rparr>],
          w2) \<and>
      (\<forall>warn' post w'.
         loop env (drop (Suc i) files) warn_i w2 = (warn', post, w') \<longrightarrow>
         main env files w =
           (0,
            GoStartOllama # pre @
              [FileRead (files ! i),
               HttpDo \<lparr>Method = ''POST'', URL = ''http://127.0.0.1:11435/api/generate'',
            Header = [(''Content-Type'', ''application/json'')], Body = body\<rparr>,
               Stdout (''Error querying LLM for file '' @ files ! i
                         @ '': error unmarshalling LLM response: '' @ UnmarshalTypeError_value j ''main.LLMResponse'' @ NL)]
              @ post @ [summary warn'],
            w')))
   \<and> (\<forall>members.
      j = JObject members \<and>
      \<not> (\<forall>(key, item) \<in> set members.
         (field_of_key [''follows_best_practices'', ''suggestions''] key = Some ''follows_best_practices''
            \<longrightarrow> item = JNull \<or> (\<exists>b. item = JBool b)) \<and>
         (field_of_key [''follows_best_practices'', ''suggestions''] key = Some ''suggestions''
            \<longrightarrow> item = JNull \<or> (\<exists>s. item = JString s)))
      \<longrightarrow>
      (\<exists>err.
         queryLLM env (files ! i) content w1 =
         (Inl (''error unmarshalling LLM response: '' @ err),
          [HttpDo \<lparr>Method = ''POST'', URL = ''http://127.0.0.1:11435/api/generate'',
            Header = [(''Content-Type'', ''application/json'')], Body = body\<rparr>],
          w2) \<and>
         (\<forall>warn' post w'.
         loop env (drop (Suc i) files) warn_i w2 = (warn', post, w') \<longrightarrow>
         main env files w =
           (0,
            GoStartOllama # pre @
              [FileRead (files ! i),
               HttpDo \<lparr>Method = ''POST'', URL = ''http://127.0.0.1:11435/api/generate'',
            Header = [(''Content-Type'', ''application/json'')], Body = body\<rparr>,
               Stdout (''Error querying LLM for file '' @ files ! i
                         @ '': error unmarshalling LLM response: '' @ err @ NL)]
              @ post @ [summary warn'],
            w'))))
   \<and> (\<forall>key.
      (\<forall>c \<in> set key. (of_char c :: nat) < 128) \<longrightarrow>
      (field_of_key [''follows_best_practices'', ''suggestions''] key = Some ''follows_best_practices''
       \<longleftrightarrow> map upper key = map upper ''follows_best_practices'') \<and>
      (field_of_key [''follows_best_practices'', ''suggestions''] key = Some ''suggestions''
       \<longleftrightarrow> map upper key = map upper ''suggestions''))"
proof (intro conjI)
  let ?zero = "\<lparr>FollowsBestPractices = False, Suggestions = []\<rparr>"
  note q = queryLLM_inner [OF assms(7-10)]
  show "(\<forall>members.
      j = JObject members \<and>
      (\<forall>(key, item) \<in> set members.
         (field_of_key [''follows_best_practices'', ''suggestions''] key = Some ''follows_best_practices''
            \<longrightarrow> item = JNull \<or> (\<exists>b. item = JBool b)) \<and>
         (field_of_key [''follows_best_practices'', ''suggestions''] key = Some ''suggestions''
            \<longrightarrow> item = JNull \<or> (\<exists>s. item = JString s)))
      \<longrightarrow>
      (\<exists>verdict.
         queryLLM env (files ! i) content w1 =
         (Inr verdict,
          [HttpDo \<lparr>Method = ''POST'', URL = ''http://127.0.0.1:11435/api/generate'',
            Header = [(''Content-Type'', ''application/json'')], Body = body\<rparr>],
          w2) \<and>
         ((\<forall>(key, item) \<in> set members.
             field_of_key [''follows_best_practices'', ''suggestions''] key \<noteq> Some ''follows_best_practices'')
          \<longrightarrow> \<not> FollowsBestPractices verdict) \<and>
         ((\<forall>(key, item) \<in> set members.
             field_of_key [''follows_best_practices'', ''suggestions''] key \<noteq> Some ''suggestions'')
          \<longrightarrow> Suggestions verdict = []) \<and>
         (\<not> FollowsBestPractices verdict \<longrightarrow>
          (\<forall>warn' post w'.
         loop env (drop (Suc i) files) True w2 = (warn', post, w') \<longrightarrow>
         main env files w =
           (0,
            GoStartOllama # pre @
              [FileRead (files ! i),
               HttpDo \<lparr>Method = ''POST'', URL = ''http://127.0.0.1:11435/api/generate'',
            Header = [(''Content-Type'', ''application/json'')], Body = body\<rparr>,
               Stdout (NL @ ''File: '' @ files ! i @ '' does not follow best practices:'' @ NL),
               Stdout (''Suggestions: '' @ Suggestions verdict @ NL),
               Stdout (''--------------------------------------------'' @ NL)]
              @ post @
              [Stdout (NL @ ''Warning: Some files do not follow Golang best practices. Please review the suggestions above.'' @ NL)],
            w')))))"
  proof (intro allI impI, elim conjE)
    fix members
    assume j: "j = JObject members"
      and typed: "(\<forall>(key, item) \<in> set members.
         (field_of_key [''follows_best_practices'', ''suggestions''] key = Some ''follows_best_practices''
            \<longrightarrow> item = JNull \<or> (\<exists>b. item = JBool b)) \<and>
         (field_of_key [''follows_best_practices'', ''suggestions''] key = Some ''suggestions''
            \<longrightarrow> item = JNull \<or> (\<exists>s. item = JString s)))"
    from object_LLMResponse_typed [OF typed, of ?zero None]
    obtain v where v: "object_LLMResponse members (?zero, None) = (v, None)"
      and d1: "(\<forall>(key, item) \<in> set members.
           field_of_key [''follows_best_practices'', ''suggestions''] key \<noteq> Some ''follows_best_practices'')
        \<longrightarrow> \<not> FollowsBestPractices v"
      and d2: "(\<forall>(key, item) \<in> set members.
           field_of_key [''follows_best_practices'', ''suggestions''] key \<noteq> Some ''suggestions'')
        \<longrightarrow> Suggestions v = []"
      by auto
    have qv: "queryLLM env (files ! i) content w1 =
         (Inr v,
          [HttpDo \<lparr>Method = ''POST'', URL = ''http://127.0.0.1:11435/api/generate'',
            Header = [(''Content-Type'', ''application/json'')], Body = body\<rparr>],
          w2)"
      using q j v by (simp add: decode_LLMResponse_def)
    have m: "\<not> FollowsBestPractices v \<longrightarrow>
          (\<forall>warn' post w'.
         loop env (drop (Suc i) files) True w2 = (warn', post, w') \<longrightarrow>
         main env files w =
           (0,
            GoStartOllama # pre @
              [FileRead (files ! i),
               HttpDo \<lparr>Method = ''POST'', URL = ''http://127.0.0.1:11435/api/generate'',
            Header = [(''Content-Type'', ''application/json'')], Body = body\<rparr>,
               Stdout (NL @ ''File: '' @ files ! i @ '' does not follow best practices:'' @ NL),
               Stdout (''Suggestions: '' @ Suggestions v @ NL),
               Stdout (''--------------------------------------------'' @ NL)]
              @ post @
              [Stdout (NL @ ''Warning: Some files do not follow Golang best practices. Please review the suggestions above.'' @ NL)],
            w'))"
    proof (intro impI allI)
      fix warn' post w'
      assume f: "\<not> FollowsBestPractices v"
        and r: "loop env (drop (Suc i) files) True w2 = (warn', post, w')"
      from main_verdict_failing [OF assms(1-6) qv f r]
      show "main env files w =
           (0,
            GoStartOllama # pre @
              [FileRead (files ! i),
               HttpDo \<lparr>Method = ''POST'', URL = ''http://127.0.0.1:11435/api/generate'',
            Header = [(''Content-Type'', ''application/json'')], Body = body\<rparr>,
               Stdout (NL @ ''File: '' @ files ! i @ '' does not follow best practices:'' @ NL),
               Stdout (''Suggestions: '' @ Suggestions v @ NL),
               Stdout (''--------------------------------------------'' @ NL)]
              @ post @
              [Stdout (NL @ ''Warning: Some files do not follow Golang best practices. Please review the suggestions above.'' @ NL)],
            w')"
        by simp
    qed
    from qv d1 d2 m
    show "\<exists>verdict.
         queryLLM env (files ! i) content w1 =
         (Inr verdict,
          [HttpDo \<lparr>Method = ''POST'', URL = ''http://127.0.0.1:11435/api/generate'',
            Header = [(''Content-Type'', ''application/json'')], Body = body\<rparr>],
          w2) \<and>
         ((\<forall>(key, item) \<in> set members.
             field_of_key [''follows_best_practices'', ''suggestions''] key \<noteq> Some ''follows_best_practices'')
          \<longrightarrow> \<not> FollowsBestPractices verdict) \<and>
         ((\<forall>(key, item) \<in> set members.
             field_of_key [''follows_best_practices'', ''suggestions''] key \<noteq> Some ''suggestions'')
          \<longrightarrow> Suggestions verdict = []) \<and>
         (\<not> FollowsBestPractices verdict \<longrightarrow>
          (\<forall>warn' post w'.
         loop env (drop (Suc i) files) True w2 = (warn', post, w') \<longrightarrow>
         main env files w =
           (0,
            GoStartOllama # pre @
              [FileRead (files ! i),
               HttpDo \<lparr>Method = ''POST'', URL = ''http://127.0.0.1:11435/api/generate'',
            Header = [(''Content-Type'', ''application/json'')], Body = body\<rparr>,
               Stdout (NL @ ''File: '' @ files ! i @ '' does not follow best practices:'' @ NL),
               Stdout (''Suggestions: '' @ Suggestions verdict @ NL),
               Stdout (''--------------------------------------------'' @ NL)]
              @ post @
              [Stdout (NL @ ''Warning: Some files do not follow Golang best practices. Please review the suggestions above.'' @ NL)],
            w')))"
      by blast
  qed
next
  note q = queryLLM_inner [OF assms(7-10)]
  show "(j = JNull \<longrightarrow>
      queryLLM env (files ! i) content w1 =
         (Inr \<lparr>FollowsBestPractices = False, Suggestions = []\<rparr>,
          [HttpDo \<lparr>Method = ''POST'', URL = ''http://127.0.0.1:11435/api/generate'',
            Header = [(''Content-Type'', ''application/json'')], Body = body\<rparr>],
          w2) \<and>
      (\<forall>warn' post w'.
         loop env (drop (Suc i) files) True w2 = (warn', post, w') \<longrightarrow>
         main env files w =
           (0,
            GoStartOllama # pre @
              [FileRead (files ! i),
               HttpDo \<lparr>Method = ''POST'', URL = ''http://127.0.0.1:11435/api/generate'',
            Header = [(''Content-Type'', ''application/json'')], Body = body\<rparr>,
               Stdout (NL @ ''File: '' @ files ! i @ '' does not follow best practices:'' @ NL),
               Stdout (''Suggestions: '' @ [] @ NL),
               Stdout (''--------------------------------------------'' @ NL)]
              @ post @
              [Stdout (NL @ ''Warning: Some files do not follow Golang best practices. Please review the suggestions above.'' @ NL)],
            w')))"
  proof (intro impI conjI allI)
    assume j: "j = JNull"
    show qz: "queryLLM env (files ! i) content w1 =
         (Inr \<lparr>FollowsBestPractices = False, Suggestions = []\<rparr>,
          [HttpDo \<lparr>Method = ''POST'', URL = ''http://127.0.0.1:11435/api/generate'',
            Header = [(''Content-Type'', ''application/json'')], Body = body\<rparr>],
          w2)"
      using q j by (simp add: decode_LLMResponse_def)
    fix warn' post w'
    assume r: "loop env (drop (Suc i) files) True w2 = (warn', post, w')"
    from main_verdict_failing [OF assms(1-6) qz _ r]
    show "main env files w =
           (0,
            GoStartOllama # pre @
              [FileRead (files ! i),
               HttpDo \<lparr>Method = ''POST'', URL = ''http://127.0.0.1:11435/api/generate'',
            Header = [(''Content-Type'', ''application/json'')], Body = body\<rparr>,
               Stdout (NL @ ''File: '' @ files ! i @ '' does not follow best practices:'' @ NL),
               Stdout (''Suggestions: '' @ [] @ NL),
               Stdout (''--------------------------------------------'' @ NL)]
              @ post @
              [Stdout (NL @ ''Warning: Some files do not follow Golang best practices. Please review the suggestions above.'' @ NL)],
            w')"
      by simp
  qed
next
  note q = queryLLM_inner [OF assms(7-10)]
  show "(j \<noteq> JNull \<and> (\<forall>members. j \<noteq> JObject members) \<longrightarrow>
      queryLLM env (files ! i) content w1 =
         (Inl (''error unmarshalling LLM response: '' @ UnmarshalTypeError_value j ''main.LLMResponse''),
          [HttpDo \<lparr>Method = ''POST'', URL = ''http://127.0.0.1:11435/api/generate'',
            Header = [(''Content-Type'', ''application/json'')], Body = body\<rparr>],
          w2) \<and>
      (\<forall>warn' post w'.
         loop env (drop (Suc i) files) warn_i w2 = (warn', post, w') \<longrightarrow>
         main env files w =
           (0,
            GoStartOllama # pre @
              [FileRead (files ! i),
               HttpDo \<lparr>Method = ''POST'', URL = ''http://127.0.0.1:11435/api/generate'',
            Header = [(''Content-Type'', ''application/json'')], Body = body\<rparr>,
               Stdout (''Error querying LLM for file '' @ files ! i
                         @ '': error unmarshalling LLM response: '' @ UnmarshalTypeError_value j ''main.LLMResponse'' @ NL)]
              @ post @ [summary warn'],
            w')))"
  proof (intro impI conjI allI, elim conjE)
    assume n: "j \<noteq> JNull" and o: "\<forall>members. j \<noteq> JObject members"
    then have d: "decode_LLMResponse j = Inl (UnmarshalTypeError_value j ''main.LLMResponse'')"
      by (cases j) (simp_all add: decode_LLMResponse_def)
    show "queryLLM env (files ! i) content w1 =
         (Inl (''error unmarshalling LLM response: '' @ UnmarshalTypeError_value j ''main.LLMResponse''),
          [HttpDo \<lparr>Method = ''POST'', URL = ''http://127.0.0.1:11435/api/generate'',
            Header = [(''Content-Type'', ''application/json'')], Body = body\<rparr>],
          w2)"
      using q d by simp
  next
    fix warn' post w'
    assume "j \<noteq> JNull \<and> (\<forall>members. j \<noteq> JObject members)"
      and r: "loop env (drop (Suc i) files) warn_i w2 = (warn', post, w')"
    then have d: "decode_LLMResponse j = Inl (UnmarshalTypeError_value j ''main.LLMResponse'')"
      by (cases j) (simp_all add: decode_LLMResponse_def)
    have qe: "queryLLM env (files ! i) content w1 =
         (Inl (''error unmarshalling LLM response: '' @ UnmarshalTypeError_value j ''main.LLMResponse''),
          [HttpDo \<lparr>Method = ''POST'', URL = ''http://127.0.0.1:11435/api/generate'',
            Header = [(''Content-Type'', ''application/json'')], Body = body\<rparr>],
          w2)"
      using q d by simp
    from main_query_failed [OF assms(1-6) qe r]
    show "main env files w =
           (0,
            GoStartOllama # pre @
              [FileRead (files ! i),
               HttpDo \<lparr>Method = ''POST'', URL = ''http://127.0.0.1:11435/api/generate'',
            Header = [(''Content-Type'', ''application/json'')], Body = body\<rparr>,
               Stdout (''Error querying LLM for file '' @ files ! i
                         @ '': error unmarshalling LLM response: '' @ UnmarshalTypeError_value j ''main.LLMResponse'' @ NL)]
              @ post @ [summary warn'],
            w')"
      by simp
  qed
next
  let ?zero = "\<lparr>FollowsBestPractices = False, Suggestions = []\<rparr>"
  note q = queryLLM_inner [OF assms(7-10)]
  show "(\<forall>members.
      j = JObject members \<and>
      \<not> (\<forall>(key, item) \<in> set members.
         (field_of_key [''follows_best_practices'', ''suggestions''] key = Some ''follows_best_practices''
            \<longrightarrow> item = JNull \<or> (\<exists>b. item = JBool b)) \<and>
         (field_of_key [''follows_best_practices'', ''suggestions''] key = Some ''suggestions''
            \<longrightarrow> item = JNull \<or> (\<exists>s. item = JString s)))
      \<longrightarrow>
      (\<exists>err.
         queryLLM env (files ! i) content w1 =
         (Inl (''error unmarshalling LLM response: '' @ err),
          [HttpDo \<lparr>Method = ''POST'', URL = ''http://127.0.0.1:11435/api/generate'',
            Header = [(''Content-Type'', ''application/json'')], Body = body\<rparr>],
          w2) \<and>
         (\<forall>warn' post w'.
         loop env (drop (Suc i) files) warn_i w2 = (warn', post, w') \<longrightarrow>
         main env files w =
           (0,
            GoStartOllama # pre @
              [FileRead (files ! i),
               HttpDo \<lparr>Method = ''POST'', URL = ''http://127.0.0.1:11435/api/generate'',
            Header = [(''Content-Type'', ''application/json'')], Body = body\<rparr>,
               Stdout (''Error querying LLM for file '' @ files ! i
                         @ '': error unmarshalling LLM response: '' @ err @ NL)]
              @ post @ [summary warn'],
            w'))))"
  proof (intro allI impI, elim conjE)
    fix members
    assume j: "j = JObject members"
      and mistyped: "\<not> (\<forall>(key, item) \<in> set members.
         (field_of_key [''follows_best_practices'', ''suggestions''] key = Some ''follows_best_practices''
            \<longrightarrow> item = JNull \<or> (\<exists>b. item = JBool b)) \<and>
         (field_of_key [''follows_best_practices'', ''suggestions''] key = Some ''suggestions''
            \<longrightarrow> item = JNull \<or> (\<exists>s. item = JString s)))"
    from object_LLMResponse_mistyped [OF mistyped, of ?zero None]
    obtain v e where v: "object_LLMResponse members (?zero, None) = (v, Some e)"
      by blast
    have qe: "queryLLM env (files ! i) content w1 =
         (Inl (''error unmarshalling LLM response: '' @ e),
          [HttpDo \<lparr>Method = ''POST'', URL = ''http://127.0.0.1:11435/api/generate'',
            Header = [(''Content-Type'', ''application/json'')], Body = body\<rparr>],
          w2)"
      using q j v by (simp add: decode_LLMResponse_def)
    have s: "(\<forall>warn' post w'.
         loop env (drop (Suc i) files) warn_i w2 = (warn', post, w') \<longrightarrow>
         main env files w =
           (0,
            GoStartOllama # pre @
              [FileRead (files ! i),
               HttpDo \<lparr>Method = ''POST'', URL = ''http://127.0.0.1:11435/api/generate'',
            Header = [(''Content-Type'', ''application/json'')], Body = body\<rparr>,
               Stdout (''Error querying LLM for file '' @ files ! i
                         @ '': error unmarshalling LLM response: '' @ e @ NL)]
              @ post @ [summary warn'],
            w'))"
    proof (intro allI impI)
      fix warn' post w'
      assume r: "loop env (drop (Suc i) files) warn_i w2 = (warn', post, w')"
      from main_query_failed [OF assms(1-6) qe r]
      show "main env files w =
           (0,
            GoStartOllama # pre @
              [FileRead (files ! i),
               HttpDo \<lparr>Method = ''POST'', URL = ''http://127.0.0.1:11435/api/generate'',
            Header = [(''Content-Type'', ''application/json'')], Body = body\<rparr>,
               Stdout (''Error querying LLM for file '' @ files ! i
                         @ '': error unmarshalling LLM response: '' @ e @ NL)]
              @ post @ [summary warn'],
            w')"
        by simp
    qed
    from qe s show "\<exists>err.
         queryLLM env (files ! i) content w1 =
         (Inl (''error unmarshalling LLM response: '' @ err),
          [HttpDo \<lparr>Method = ''POST'', URL = ''http://127.0.0.1:11435/api/generate'',
            Header = [(''Content-Type'', ''application/json'')], Body = body\<rparr>],
          w2) \<and>
         (\<forall>warn' post w'.
         loop env (drop (Suc i) files) warn_i w2 = (warn', post, w') \<longrightarrow>
         main env files w =
           (0,
            GoStartOllama # pre @
              [FileRead (files ! i),
               HttpDo \<lparr>Method = ''POST'', URL = ''http://127.0.0.1:11435/api/generate'',
            Header = [(''Content-Type'', ''application/json'')], Body = body\<rparr>,
               Stdout (''Error querying LLM for file '' @ files ! i
                         @ '': error unmarshalling LLM response: '' @ err @ NL)]
              @ post @ [summary warn'],
            w'))"
      by blast
  qed
next
  show "(\<forall>key.
      (\<forall>c \<in> set key. (of_char c :: nat) < 128) \<longrightarrow>
      (field_of_key [''follows_best_practices'', ''suggestions''] key = Some ''follows_best_practices''
       \<longleftrightarrow> map upper key = map upper ''follows_best_practices'') \<and>
      (field_of_key [''follows_best_practices'', ''suggestions''] key = Some ''suggestions''
       \<longleftrightarrow> map upper key = map upper ''suggestions''))"
    using field_of_key_ascii by blast
qed

theorem inner_text_decoding_witness:
  "main mock [''empty.go'', ''null.go'', ''folded.go'', ''arr.go'', ''typed.go'']
     \<lparr>disk = [(''empty.go'', ''package empty''), (''null.go'', ''package null''),
              (''folded.go'', ''package folded''), (''arr.go'', ''package arr''),
              (''typed.go'', ''package typed'')],
      replies = [Inr (Inr body_empty), Inr (Inr body_null), Inr (Inr body_folded),
                 Inr (Inr body_array), Inr (Inr body_mistyped)]\<rparr> =
     (0,
      [GoStartOllama,
       FileRead ''empty.go'',
       HttpDo \<lparr>Method = ''POST'', URL = ''http://127.0.0.1:11435/api/generate'',
                Header = [(''Content-Type'', ''application/json'')],
                Body = ''File to check:'' @ NL @ ''Filename: empty.go'' @ NL @ ''Content:'' @ NL @ ''package empty''\<rparr>,
       Stdout (NL @ ''File: empty.go does not follow best practices:'' @ NL),
       Stdout (''Suggestions: '' @ NL),
       Stdout (''--------------------------------------------'' @ NL),
       FileRead ''null.go'',
       HttpDo \<lparr>Method = ''POST'', URL = ''http://127.0.0.1:11435/api/generate'',
                Header = [(''Content-Type'', ''application/json'')],
                Body = ''File to check:'' @ NL @ ''Filename: null.go'' @ NL @ ''Content:'' @ NL @ ''package null''\<rparr>,
       Stdout (NL @ ''File: null.go does not follow best practices:'' @ NL),
       Stdout (''Suggestions: '' @ NL),
       Stdout (''--------------------------------------------'' @ NL),
       FileRead ''folded.go'',
       HttpDo \<lparr>Method = ''POST'', URL = ''http://127.0.0.1:11435/api/generate'',
                Header = [(''Content-Type'', ''application/json'')],
                Body = ''File to check:'' @ NL @ ''Filename: folded.go'' @ NL @ ''Content:'' @ NL @ ''package folded''\<rparr>,
       Stdout (NL @ ''File: folded.go does not follow best practices:'' @ NL),
       Stdout (''Suggestions: rename it'' @ NL),
       Stdout (''--------------------------------------------'' @ NL),
       FileRead ''arr.go'',
       HttpDo \<lparr>Method = ''POST'', URL = ''http://127.0.0.1:11435/api/generate'',
                Header = [(''Content-Type'', ''application/json'')],
                Body = ''File to check:'' @ NL @ ''Filename: arr.go'' @ NL @ ''Content:'' @ NL @ ''package arr''\<rparr>,
       Stdout (''Error querying LLM for file arr.go: error unmarshalling LLM response: json: cannot unmarshal array into Go value of type main.LLMResponse'' @ NL),
       FileRead ''typed.go'',
       HttpDo \<lparr>Method = ''POST'', URL = ''http://127.0.0.1:11435/api/generate'',
                Header = [(''Content-Type'', ''application/json'')],
                Body = ''File to check:'' @ NL @ ''Filename: typed.go'' @ NL @ ''Content:'' @ NL @ ''package typed''\<rparr>,
       Stdout (''Error querying LLM for file typed.go: error unmarshalling LLM response: json: cannot unmarshal string into Go struct field LLMResponse.follows_best_practices of type bool'' @ NL),
       Stdout (NL @ ''Warning: Some files do not follow Golang best practices. Please review the suggestions above.'' @ NL)],
      \<lparr>disk = [(''empty.go'', ''package empty''), (''null.go'', ''package null''),
              (''folded.go'', ''package folded''), (''arr.go'', ''package arr''),
              (''typed.go'', ''package typed'')],
       replies = []\<rparr>)"
proof -
  let ?d = "[(''empty.go'', ''package empty''), (''null.go'', ''package null''),
              (''folded.go'', ''package folded''), (''arr.go'', ''package arr''),
              (''typed.go'', ''package typed'')]"
  let ?files = "[''empty.go'', ''null.go'', ''folded.go'', ''arr.go'', ''typed.go'']"
  let ?w0 = "\<lparr>disk = ?d, replies = [Inr (Inr body_empty), Inr (Inr body_null), Inr (Inr body_folded), Inr (Inr body_array), Inr (Inr body_mistyped)]\<rparr>"
  let ?w1 = "\<lparr>disk = ?d, replies = [Inr (Inr body_null), Inr (Inr body_folded), Inr (Inr body_array), Inr (Inr body_mistyped)]\<rparr>"
  let ?w2 = "\<lparr>disk = ?d, replies = [Inr (Inr body_folded), Inr (Inr body_array), Inr (Inr body_mistyped)]\<rparr>"
  let ?w3 = "\<lparr>disk = ?d, replies = [Inr (Inr body_array), Inr (Inr body_mistyped)]\<rparr>"
  let ?w4 = "\<lparr>disk = ?d, replies = [Inr (Inr body_mistyped)]\<rparr>"
  let ?w5 = "\<lparr>disk = ?d, replies = []\<rparr>"
  have len: "length ?files \<le> 20" by simp
  note ev = mock_eval UnmarshalTypeError_value_def UnmarshalTypeError_field_def saveError_def
  have pre1: "loop mock (take 1 ?files) False ?w0 =
      (True,
       [FileRead ''empty.go'',
        HttpDo \<lparr>Method = ''POST'', URL = ''http://127.0.0.1:11435/api/generate'',
                 Header = [(''Content-Type'', ''application/json'')],
                 Body = ''File to check:'' @ NL @ ''Filename: empty.go'' @ NL @ ''Content:'' @ NL @ ''package empty''\<rparr>,
        Stdout (NL @ ''File: empty.go does not follow best practices:'' @ NL),
        Stdout (''Suggestions: '' @ NL),
        Stdout (''--------------------------------------------'' @ NL)],
       ?w1)"
    by (simp add: ev upper_def char_of_def bit_0)
  have pre2: "loop mock (take 2 ?files) False ?w0 =
      (True,
       [FileRead ''empty.go'',
        HttpDo \<lparr>Method = ''POST'', URL = ''http://127.0.0.1:11435/api/generate'',
                 Header = [(''Content-Type'', ''application/json'')],
                 Body = ''File to check:'' @ NL @ ''Filename: empty.go'' @ NL @ ''Content:'' @ NL @ ''package empty''\<rparr>,
        Stdout (NL @ ''File: empty.go does not follow best practices:'' @ NL),
        Stdout (''Suggestions: '' @ NL),
        Stdout (''--------------------------------------------'' @ NL),
        FileRead ''null.go'',
        HttpDo \<lparr>Method = ''POST'', URL = ''http://127.0.0.1:11435/api/generate'',
                 Header = [(''Content-Type'', ''application/json'')],
                 Body = ''File to check:'' @ NL @ ''Filename: null.go'' @ NL @ ''Content:'' @ NL @ ''package null''\<rparr>,
        Stdout (NL @ ''File: null.go does not follow best practices:'' @ NL),
        Stdout (''Suggestions: '' @ NL),
        Stdout (''--------------------------------------------'' @ NL)],
       ?w2)"
    by (simp add: ev upper_def char_of_def bit_0)
  have pre3: "loop mock (take 3 ?files) False ?w0 =
      (True,
       [FileRead ''empty.go'',
        HttpDo \<lparr>Method = ''POST'', URL = ''http://127.0.0.1:11435/api/generate'',
                 Header = [(''Content-Type'', ''application/json'')],
                 Body = ''File to check:'' @ NL @ ''Filename: empty.go'' @ NL @ ''Content:'' @ NL @ ''package empty''\<rparr>,
        Stdout (NL @ ''File: empty.go does not follow best practices:'' @ NL),
        Stdout (''Suggestions: '' @ NL),
        Stdout (''--------------------------------------------'' @ NL),
        FileRead ''null.go'',
        HttpDo \<lparr>Method = ''POST'', URL = ''http://127.0.0.1:11435/api/generate'',
                 Header = [(''Content-Type'', ''application/json'')],
                 Body = ''File to check:'' @ NL @ ''Filename: null.go'' @ NL @ ''Content:'' @ NL @ ''package null''\<rparr>,
        Stdout (NL @ ''File: null.go does not follow best practices:'' @ NL),
        Stdout (''Suggestions: '' @ NL),
        Stdout (''--------------------------------------------'' @ NL),
        FileRead ''folded.go'',
        HttpDo \<lparr>Method = ''POST'', URL = ''http://127.0.0.1:11435/api/generate'',
                 Header = [(''Content-Type'', ''application/json'')],
                 Body = ''File to check:'' @ NL @ ''Filename: folded.go'' @ NL @ ''Content:'' @ NL @ ''package folded''\<rparr>,
        Stdout (NL @ ''File: folded.go does not follow best practices:'' @ NL),
        Stdout (''Suggestions: rename it'' @ NL),
        Stdout (''--------------------------------------------'' @ NL)],
       ?w3)"
    by (simp add: ev upper_def char_of_def bit_0)
  have pre4: "loop mock (take 4 ?files) False ?w0 =
      (True,
       [FileRead ''empty.go'',
        HttpDo \<lparr>Method = ''POST'', URL = ''http://127.0.0.1:11435/api/generate'',
                 Header = [(''Content-Type'', ''application/json'')],
                 Body = ''File to check:'' @ NL @ ''Filename: empty.go'' @ NL @ ''Content:'' @ NL @ ''package empty''\<rparr>,
        Stdout (NL @ ''File: empty.go does not follow best practices:'' @ NL),
        Stdout (''Suggestions: '' @ NL),
        Stdout (''--------------------------------------------'' @ NL),
        FileRead ''null.go'',
        HttpDo \<lparr>Method = ''POST'', URL = ''http://127.0.0.1:11435/api/generate'',
                 Header = [(''Content-Type'', ''application/json'')],
                 Body = ''File to check:'' @ NL @ ''Filename: null.go'' @ NL @ ''Content:'' @ NL @ ''package null''\<rparr>,
        Stdout (NL @ ''File: null.go does not follow best practices:'' @ NL),
        Stdout (''Suggestions: '' @ NL),
        Stdout (''--------------------------------------------'' @ NL),
        FileRead ''folded.go'',
        HttpDo \<lparr>Method = ''POST'', URL = ''http://127.0.0.1:11435/api/generate'',
                 Header = [(''Content-Type'', ''application/json'')],
                 Body = ''File to check:'' @ NL @ ''Filename: folded.go'' @ NL @ ''Content:'' @ NL @ ''package folded''\<rparr>,
        Stdout (NL @ ''File: folded.go does not follow best practices:'' @ NL),
        Stdout (''Suggestions: rename it'' @ NL),
        Stdout (''--------------------------------------------'' @ NL),
        FileRead ''arr.go'',
        HttpDo \<lparr>Method = ''POST'', URL = ''http://127.0.0.1:11435/api/generate'',
                 Header = [(''Content-Type'', ''application/json'')],
                 Body = ''File to check:'' @ NL @ ''Filename: arr.go'' @ NL @ ''Content:'' @ NL @ ''package arr''\<rparr>,
        Stdout (''Error querying LLM for file arr.go: error unmarshalling LLM response: json: cannot unmarshal array into Go value of type main.LLMResponse'' @ NL)],
       ?w4)"
    by (simp add: ev upper_def char_of_def bit_0)
  have post1: "loop mock (drop (Suc 1) ?files) True ?w2 =
      (True,
       [FileRead ''folded.go'',
        HttpDo \<lparr>Method = ''POST'', URL = ''http://127.0.0.1:11435/api/generate'',
                 Header = [(''Content-Type'', ''application/json'')],
                 Body = ''File to check:'' @ NL @ ''Filename: folded.go'' @ NL @ ''Content:'' @ NL @ ''package folded''\<rparr>,
        Stdout (NL @ ''File: folded.go does not follow best practices:'' @ NL),
        Stdout (''Suggestions: rename it'' @ NL),
        Stdout (''--------------------------------------------'' @ NL),
        FileRead ''arr.go'',
        HttpDo \<lparr>Method = ''POST'', URL = ''http://127.0.0.1:11435/api/generate'',
                 Header = [(''Content-Type'', ''application/json'')],
                 Body = ''File to check:'' @ NL @ ''Filename: arr.go'' @ NL @ ''Content:'' @ NL @ ''package arr''\<rparr>,
        Stdout (''Error querying LLM for file arr.go: error unmarshalling LLM response: json: cannot unmarshal array into Go value of type main.LLMResponse'' @ NL),
        FileRead ''typed.go'',
        HttpDo \<lparr>Method = ''POST'', URL = ''http://127.0.0.1:11435/api/generate'',
                 Header = [(''Content-Type'', ''application/json'')],
                 Body = ''File to check:'' @ NL @ ''Filename: typed.go'' @ NL @ ''Content:'' @ NL @ ''package typed''\<rparr>,
        Stdout (''Error querying LLM for file typed.go: error unmarshalling LLM response: json: cannot unmarshal string into Go struct field LLMResponse.follows_best_practices of type bool'' @ NL)],
       ?w5)"
    by (simp add: ev upper_def char_of_def bit_0)
  have post2: "loop mock (drop (Suc 2) ?files) True ?w3 =
      (True,
       [FileRead ''arr.go'',
        HttpDo \<lparr>Method = ''POST'', URL = ''http://127.0.0.1:11435/api/generate'',
                 Header = [(''Content-Type'', ''application/json'')],
                 Body = ''File to check:'' @ NL @ ''Filename: arr.go'' @ NL @ ''Content:'' @ NL @ ''package arr''\<rparr>,
        Stdout (''Error querying LLM for file arr.go: error unmarshalling LLM response: json: cannot unmarshal array into Go value of type main.LLMResponse'' @ NL),
        FileRead ''typed.go'',
        HttpDo \<lparr>Method = ''POST'', URL = ''http://127.0.0.1:11435/api/generate'',
                 Header = [(''Content-Type'', ''application/json'')],
                 Body = ''File to check:'' @ NL @ ''Filename: typed.go'' @ NL @ ''Content:'' @ NL @ ''package typed''\<rparr>,
        Stdout (''Error querying LLM for file typed.go: error unmarshalling LLM response: json: cannot unmarshal string into Go struct field LLMResponse.follows_best_practices of type bool'' @ NL)],
       ?w5)"
    by (simp add: ev upper_def char_of_def bit_0)
  have post3: "loop mock (drop (Suc 3) ?files) True ?w4 =
      (True,
       [FileRead ''typed.go'',
        HttpDo \<lparr>Method = ''POST'', URL = ''http://127.0.0.1:11435/api/generate'',
                 Header = [(''Content-Type'', ''application/json'')],
                 Body = ''File to check:'' @ NL @ ''Filename: typed.go'' @ NL @ ''Content:'' @ NL @ ''package typed''\<rparr>,
        Stdout (''Error querying LLM for file typed.go: error unmarshalling LLM response: json: cannot unmarshal string into Go struct field LLMResponse.follows_best_practices of type bool'' @ NL)],
       ?w5)"
    by (simp add: ev upper_def char_of_def bit_0)
  have post4: "loop mock (drop (Suc 4) ?files) True ?w5 =
      (True,
       [],
       ?w5)"
    by (simp add: ev upper_def char_of_def bit_0)
  have run1: "main mock ?files ?w0 =
      (0,
       GoStartOllama # [FileRead ''empty.go'',
           HttpDo \<lparr>Method = ''POST'', URL = ''http://127.0.0.1:11435/api/generate'',
                    Header = [(''Content-Type'', ''application/json'')],
                    Body = ''File to check:'' @ NL @ ''Filename: empty.go'' @ NL @ ''Content:'' @ NL @ ''package empty''\<rparr>,
           Stdout (NL @ ''File: empty.go does not follow best practices:'' @ NL),
           Stdout (''Suggestions: '' @ NL),
           Stdout (''--------------------------------------------'' @ NL)]
         @ [FileRead ''null.go'',
           HttpDo \<lparr>Method = ''POST'', URL = ''http://127.0.0.1:11435/api/generate'',
                    Header = [(''Content-Type'', ''application/json'')],
                    Body = ''File to check:'' @ NL @ ''Filename: null.go'' @ NL @ ''Content:'' @ NL @ ''package null''\<rparr>,
           Stdout (NL @ ''File: null.go does not follow best practices:'' @ NL),
           Stdout (''Suggestions: '' @ NL),
           Stdout (''--------------------------------------------'' @ NL)]
         @ [FileRead ''folded.go'',
           HttpDo \<lparr>Method = ''POST'', URL = ''http://127.0.0.1:11435/api/generate'',
                    Header = [(''Content-Type'', ''application/json'')],
                    Body = ''File to check:'' @ NL @ ''Filename: folded.go'' @ NL @ ''Content:'' @ NL @ ''package folded''\<rparr>,
           Stdout (NL @ ''File: folded.go does not follow best practices:'' @ NL),
           Stdout (''Suggestions: rename it'' @ NL),
           Stdout (''--------------------------------------------'' @ NL),
           FileRead ''arr.go'',
           HttpDo \<lparr>Method = ''POST'', URL = ''http://127.0.0.1:11435/api/generate'',
                    Header = [(''Content-Type'', ''application/json'')],
                    Body = ''File to check:'' @ NL @ ''Filename: arr.go'' @ NL @ ''Content:'' @ NL @ ''package arr''\<rparr>,
           Stdout (''Error querying LLM for file arr.go: error unmarshalling LLM response: json: cannot unmarshal array into Go value of type main.LLMResponse'' @ NL),
           FileRead ''typed.go'',
           HttpDo \<lparr>Method = ''POST'', URL = ''http://127.0.0.1:11435/api/generate'',
                    Header = [(''Content-Type'', ''application/json'')],
                    Body = ''File to check:'' @ NL @ ''Filename: typed.go'' @ NL @ ''Content:'' @ NL @ ''package typed''\<rparr>,
           Stdout (''Error querying LLM for file typed.go: error unmarshalling LLM response: json: cannot unmarshal string into Go struct field LLMResponse.follows_best_practices of type bool'' @ NL)]
         @ [Stdout (NL @ ''Warning: Some files do not follow Golang best practices. Please review the suggestions above.'' @ NL)],
       ?w5)"
  proof -
    have i: "1 < length ?files" and go: "HasSuffix (?files ! 1) ''.go''"
      by (simp_all add: HasSuffix_def)
    have rd: "os_ReadFile mock (?files ! 1) ?w1 = (Inr ''package null'', ?w1)"
      by (simp add: mock_sel mock_ReadFile_def)
    have rc: "RuneCountInString ''package null'' \<le> 8000" by (simp add: rune_step_def)
    have ms: "json_Marshal mock
           \<lparr>Model = ''qwen2.5-coder:7b'',
            Prompt = ''File to check:'' @ NL @ ''Filename: '' @ ?files ! 1 @ NL
                       @ ''Content:'' @ NL @ ''package null'',
            Format = ''json'', System = system_prompt, Stream = False\<rparr> =
          Inr (''File to check:'' @ NL @ ''Filename: null.go'' @ NL @ ''Content:'' @ NL @ ''package null'')"
      by (simp add: mock_Marshal)
    have do: "client_Do mock
           \<lparr>Method = ''POST'', URL = ''http://127.0.0.1:11435/api/generate'',
             Header = [(''Content-Type'', ''application/json'')],
             Body = ''File to check:'' @ NL @ ''Filename: null.go'' @ NL @ ''Content:'' @ NL @ ''package null''\<rparr> ?w1
         = (Inr (Inr body_null), ?w2)"
      by (simp add: mock_sel mock_Do_def)
    have en: "Unmarshal_ollamaResponse mock body_null = Inr \<lparr>Response = ''null''\<rparr>"
      by (simp add: ev)
    have jp: "json_parse mock (Response \<lparr>Response = ''null''\<rparr>) = Inr (JNull)"
      by (simp add: mock_sel mock_parse_simps)
    show ?thesis
      using inner_text_decoding [OF len i pre1 go rd rc ms do en jp] post1
      by (elim conjE) (auto simp: ev upper_def char_of_def bit_0)
  qed
  have run2: "main mock ?files ?w0 =
      (0,
       GoStartOllama # [FileRead ''empty.go'',
           HttpDo \<lparr>Method = ''POST'', URL = ''http://127.0.0.1:11435/api/generate'',
                    Header = [(''Content-Type'', ''application/json'')],
                    Body = ''File to check:'' @ NL @ ''Filename: empty.go'' @ NL @ ''Content:'' @ NL @ ''package empty''\<rparr>,
           Stdout (NL @ ''File: empty.go does not follow best practices:'' @ NL),
           Stdout (''Suggestions: '' @ NL),
           Stdout (''--------------------------------------------'' @ NL),
           FileRead ''null.go'',
           HttpDo \<lparr>Method = ''POST'', URL = ''http://127.0.0.1:11435/api/generate'',
                    Header = [(''Content-Type'', ''application/json'')],
                    Body = ''File to check:'' @ NL @ ''Filename: null.go'' @ NL @ ''Content:'' @ NL @ ''package null''\<rparr>,
           Stdout (NL @ ''File: null.go does not follow best practices:'' @ NL),
           Stdout (''Suggestions: '' @ NL),
           Stdout (''--------------------------------------------'' @ NL)]
         @ [FileRead ''folded.go'',
           HttpDo \<lparr>Method = ''POST'', URL = ''http://127.0.0.1:11435/api/generate'',
                    Header = [(''Content-Type'', ''application/json'')],
                    Body = ''File to check:'' @ NL @ ''Filename: folded.go'' @ NL @ ''Content:'' @ NL @ ''package folded''\<rparr>,
           Stdout (NL @ ''File: folded.go does not follow best practices:'' @ NL),
           Stdout (''Suggestions: rename it'' @ NL),
           Stdout (''--------------------------------------------'' @ NL)]
         @ [FileRead ''arr.go'',
           HttpDo \<lparr>Method = ''POST'', URL = ''http://127.0.0.1:11435/api/generate'',
                    Header = [(''Content-Type'', ''application/json'')],
                    Body = ''File to check:'' @ NL @ ''Filename: arr.go'' @ NL @ ''Content:'' @ NL @ ''package arr''\<rparr>,
           Stdout (''Error querying LLM for file arr.go: error unmarshalling LLM response: json: cannot unmarshal array into Go value of type main.LLMResponse'' @ NL),
           FileRead ''typed.go'',
           HttpDo \<lparr>Method = ''POST'', URL = ''http://127.0.0.1:11435/api/generate'',
                    Header = [(''Content-Type'', ''application/json'')],
                    Body = ''File to check:'' @ NL @ ''Filename: typed.go'' @ NL @ ''Content:'' @ NL @ ''package typed''\<rparr>,
           Stdout (''Error querying LLM for file typed.go: error unmarshalling LLM response: json: cannot unmarshal string into Go struct field LLMResponse.follows_best_practices of type bool'' @ NL)]
         @ [Stdout (NL @ ''Warning: Some files do not follow Golang best practices. Please review the suggestions above.'' @ NL)],
       ?w5)"
  proof -
    have i: "2 < length ?files" and go: "HasSuffix (?files ! 2) ''.go''"
      by (simp_all add: HasSuffix_def)
    have rd: "os_ReadFile mock (?files ! 2) ?w2 = (Inr ''package folded'', ?w2)"
      by (simp add: mock_sel mock_ReadFile_def)
    have rc: "RuneCountInString ''package folded'' \<le> 8000" by (simp add: rune_step_def)
    have ms: "json_Marshal mock
           \<lparr>Model = ''qwen2.5-coder:7b'',
            Prompt = ''File to check:'' @ NL @ ''Filename: '' @ ?files ! 2 @ NL
                       @ ''Content:'' @ NL @ ''package folded'',
            Format = ''json'', System = system_prompt, Stream = False\<rparr> =
          Inr (''File to check:'' @ NL @ ''Filename: folded.go'' @ NL @ ''Content:'' @ NL @ ''package folded'')"
      by (simp add: mock_Marshal)
    have do: "client_Do mock
           \<lparr>Method = ''POST'', URL = ''http://127.0.0.1:11435/api/generate'',
             Header = [(''Content-Type'', ''application/json'')],
             Body = ''File to check:'' @ NL @ ''Filename: folded.go'' @ NL @ ''Content:'' @ NL @ ''package folded''\<rparr> ?w2
         = (Inr (Inr body_folded), ?w3)"
      by (simp add: mock_sel mock_Do_def)
    have en: "Unmarshal_ollamaResponse mock body_folded = Inr \<lparr>Response = inner_folded\<rparr>"
      by (simp add: ev)
    have jp: "json_parse mock (Response \<lparr>Response = inner_folded\<rparr>) = Inr (JObject [(''Suggestions'', JString ''rename it'')])"
      by (simp add: mock_sel mock_parse_simps)
    show ?thesis
      using inner_text_decoding [OF len i pre2 go rd rc ms do en jp] post2
      by (elim conjE) (auto simp: ev upper_def char_of_def bit_0)
  qed
  have run3: "main mock ?files ?w0 =
      (0,
       GoStartOllama # [FileRead ''empty.go'',
           HttpDo \<lparr>Method = ''POST'', URL = ''http://127.0.0.1:11435/api/generate'',
                    Header = [(''Content-Type'', ''application/json'')],
                    Body = ''File to check:'' @ NL @ ''Filename: empty.go'' @ NL @ ''Content:'' @ NL @ ''package empty''\<rparr>,
           Stdout (NL @ ''File: empty.go does not follow best practices:'' @ NL),
           Stdout (''Suggestions: '' @ NL),
           Stdout (''--------------------------------------------'' @ NL),
           FileRead ''null.go'',
           HttpDo \<lparr>Method = ''POST'', URL = ''http://127.0.0.1:11435/api/generate'',
                    Header = [(''Content-Type'', ''application/json'')],
                    Body = ''File to check:'' @ NL @ ''Filename: null.go'' @ NL @ ''Content:'' @ NL @ ''package null''\<rparr>,
           Stdout (NL @ ''File: null.go does not follow best practices:'' @ NL),
           Stdout (''Suggestions: '' @ NL),
           Stdout (''--------------------------------------------'' @ NL),
           FileRead ''folded.go'',
           HttpDo \<lparr>Method = ''POST'', URL = ''http://127.0.0.1:11435/api/generate'',
                    Header = [(''Content-Type'', ''application/json'')],
                    Body = ''File to check:'' @ NL @ ''Filename: folded.go'' @ NL @ ''Content:'' @ NL @ ''package folded''\<rparr>,
           Stdout (NL @ ''File: folded.go does not follow best practices:'' @ NL),
           Stdout (''Suggestions: rename it'' @ NL),
           Stdout (''--------------------------------------------'' @ NL)]
         @ [FileRead ''arr.go'',
           HttpDo \<lparr>Method = ''POST'', URL = ''http://127.0.0.1:11435/api/generate'',
                    Header = [(''Content-Type'', ''application/json'')],
                    Body = ''File to check:'' @ NL @ ''Filename: arr.go'' @ NL @ ''Content:'' @ NL @ ''package arr''\<rparr>,
           Stdout (''Error querying LLM for file arr.go: error unmarshalling LLM response: json: cannot unmarshal array into Go value of type main.LLMResponse'' @ NL)]
         @ [FileRead ''typed.go'',
           HttpDo \<lparr>Method = ''POST'', URL = ''http://127.0.0.1:11435/api/generate'',
                    Header = [(''Content-Type'', ''application/json'')],
                    Body = ''File to check:'' @ NL @ ''Filename: typed.go'' @ NL @ ''Content:'' @ NL @ ''package typed''\<rparr>,
           Stdout (''Error querying LLM for file typed.go: error unmarshalling LLM response: json: cannot unmarshal string into Go struct field LLMResponse.follows_best_practices of type bool'' @ NL)]
         @ [Stdout (NL @ ''Warning: Some files do not follow Golang best practices. Please review the suggestions above.'' @ NL)],
       ?w5)"
  proof -
    have i: "3 < length ?files" and go: "HasSuffix (?files ! 3) ''.go''"
      by (simp_all add: HasSuffix_def)
    have rd: "os_ReadFile mock (?files ! 3) ?w3 = (Inr ''package arr'', ?w3)"
      by (simp add: mock_sel mock_ReadFile_def)
    have rc: "RuneCountInString ''package arr'' \<le> 8000" by (simp add: rune_step_def)
    have ms: "json_Marshal mock
           \<lparr>Model = ''qwen2.5-coder:7b'',
            Prompt = ''File to check:'' @ NL @ ''Filename: '' @ ?files ! 3 @ NL
                       @ ''Content:'' @ NL @ ''package arr'',
            Format = ''json'', System = system_prompt, Stream = False\<rparr> =
          Inr (''File to check:'' @ NL @ ''Filename: arr.go'' @ NL @ ''Content:'' @ NL @ ''package arr'')"
      by (simp add: mock_Marshal)
    have do: "client_Do mock
           \<lparr>Method = ''POST'', URL = ''http://127.0.0.1:11435/api/generate'',
             Header = [(''Content-Type'', ''application/json'')],
             Body = ''File to check:'' @ NL @ ''Filename: arr.go'' @ NL @ ''Content:'' @ NL @ ''package arr''\<rparr> ?w3
         = (Inr (Inr body_array), ?w4)"
      by (simp add: mock_sel mock_Do_def)
    have en: "Unmarshal_ollamaResponse mock body_array = Inr \<lparr>Response = ''[]''\<rparr>"
      by (simp add: ev)
    have jp: "json_parse mock (Response \<lparr>Response = ''[]''\<rparr>) = Inr (JArray [])"
      by (simp add: mock_sel mock_parse_simps)
    show ?thesis
      using inner_text_decoding [OF len i pre3 go rd rc ms do en jp] post3
      by (elim conjE) (auto simp: ev upper_def char_of_def bit_0)
  qed
  have run4: "main mock ?files ?w0 =
      (0,
       GoStartOllama # [FileRead ''empty.go'',
           HttpDo \<lparr>Method = ''POST'', URL = ''http://127.0.0.1:11435/api/generate'',
                    Header = [(''Content-Type'', ''application/json'')],
                    Body = ''File to check:'' @ NL @ ''Filename: empty.go'' @ NL @ ''Content:'' @ NL @ ''package empty''\<rparr>,
           Stdout (NL @ ''File: empty.go does not follow best practices:'' @ NL),
           Stdout (''Suggestions: '' @ NL),
           Stdout (''--------------------------------------------'' @ NL),
           FileRead ''null.go'',
           HttpDo \<lparr>Method = ''POST'', URL = ''http://127.0.0.1:11435/api/generate'',
                    Header = [(''Content-Type'', ''application/json'')],
                    Body = ''File to check:'' @ NL @ ''Filename: null.go'' @ NL @ ''Content:'' @ NL @ ''package null''\<rparr>,
           Stdout (NL @ ''File: null.go does not follow best practices:'' @ NL),
           Stdout (''Suggestions: '' @ NL),
           Stdout (''--------------------------------------------'' @ NL),
           FileRead ''folded.go'',
           HttpDo \<lparr>Method = ''POST'', URL = ''http://127.0.0.1:11435/api/generate'',
                    Header = [(''Content-Type'', ''application/json'')],
                    Body = ''File to check:'' @ NL @ ''Filename: folded.go'' @ NL @ ''Content:'' @ NL @ ''package folded''\<rparr>,
           Stdout (NL @ ''File: folded.go does not follow best practices:'' @ NL),
           Stdout (''Suggestions: rename it'' @ NL),
           Stdout (''--------------------------------------------'' @ NL),
           FileRead ''arr.go'',
           HttpDo \<lparr>Method = ''POST'', URL = ''http://127.0.0.1:11435/api/generate'',
                    Header = [(''Content-Type'', ''application/json'')],
                    Body = ''File to check:'' @ NL @ ''Filename: arr.go'' @ NL @ ''Content:'' @ NL @ ''package arr''\<rparr>,
           Stdout (''Error querying LLM for file arr.go: error unmarshalling LLM response: json: cannot unmarshal array into Go value of type main.LLMResponse'' @ NL)]
         @ [FileRead ''typed.go'',
           HttpDo \<lparr>Method = ''POST'', URL = ''http://127.0.0.1:11435/api/generate'',
                    Header = [(''Content-Type'', ''application/json'')],
                    Body = ''File to check:'' @ NL @ ''Filename: typed.go'' @ NL @ ''Content:'' @ NL @ ''package typed''\<rparr>,
           Stdout (''Error querying LLM for file typed.go: error unmarshalling LLM response: json: cannot unmarshal string into Go struct field LLMResponse.follows_best_practices of type bool'' @ NL)]
         @ []
         @ [Stdout (NL @ ''Warning: Some files do not follow Golang best practices. Please review the suggestions above.'' @ NL)],
       ?w5)"
  proof -
    have i: "4 < length ?files" and go: "HasSuffix (?files ! 4) ''.go''"
      by (simp_all add: HasSuffix_def)
    have rd: "os_ReadFile mock (?files ! 4) ?w4 = (Inr ''package typed'', ?w4)"
      by (simp add: mock_sel mock_ReadFile_def)
    have rc: "RuneCountInString ''package typed'' \<le> 8000" by (simp add: rune_step_def)
    have ms: "json_Marshal mock
           \<lparr>Model = ''qwen2.5-coder:7b'',
            Prompt = ''File to check:'' @ NL @ ''Filename: '' @ ?files ! 4 @ NL
                       @ ''Content:'' @ NL @ ''package typed'',
            Format = ''json'', System = system_prompt, Stream = False\<rparr> =
          Inr (''File to check:'' @ NL @ ''Filename: typed.go'' @ NL @ ''Content:'' @ NL @ ''package typed'')"
      by (simp add: mock_Marshal)
    have do: "client_Do mock
           \<lparr>Method = ''POST'', URL = ''http://127.0.0.1:11435/api/generate'',
             Header = [(''Content-Type'', ''application/json'')],
             Body = ''File to check:'' @ NL @ ''Filename: typed.go'' @ NL @ ''Content:'' @ NL @ ''package typed''\<rparr> ?w4
         = (Inr (Inr body_mistyped), ?w5)"
      by (simp add: mock_sel mock_Do_def)
    have en: "Unmarshal_ollamaResponse mock body_mistyped = Inr \<lparr>Response = inner_mistyped\<rparr>"
      by (simp add: ev)
    have jp: "json_parse mock (Response \<lparr>Response = inner_mistyped\<rparr>) = Inr (JObject [(''follows_best_practices'', JString ''yes'')])"
      by (simp add: mock_sel mock_parse_simps)
    show ?thesis
      using inner_text_decoding [OF len i pre4 go rd rc ms do en jp] post4
      by (elim conjE) (auto simp: ev upper_def char_of_def bit_0)
  qed
  from run1 show ?thesis by simp
qed

text \<open>
  Claim C10. Both limits are strict and the size limit counts runes. A list of exactly 20
  files is not refused: \<^verbatim>\<open>main\<close> runs the loop over all of them. A \<^verbatim>\<open>.go\<close> file of
  exactly 8000 runes, and one of more than 8000 bytes but at most 8000 runes, is not
  skipped: its turn sends the request that carries its content.
\<close>

theorem limits_are_strict:
  "(length files = 20 \<longrightarrow>
      main env files w =
        (case loop env files False w of
           (warn, evs, w') \<Rightarrow> (0, GoStartOllama # evs @ [summary warn], w')))
   \<and> (HasSuffix file ''.go'' \<and>
       os_ReadFile env file w0 = (Inr content, w1) \<and>
       (RuneCountInString content = 8000 \<or>
        RuneCountInString content \<le> 8000 \<and> 8000 < length content) \<and>
       json_Marshal env
         \<lparr>Model = ''qwen2.5-coder:7b'',
          Prompt = ''File to check:'' @ NL @ ''Filename: '' @ file @ NL
                     @ ''Content:'' @ NL @ content,
          Format = ''json'', System = system_prompt, Stream = False\<rparr> = Inr body
       \<longrightarrow>
       (\<exists>warn' prints w2.
          loop_body env file warn w0 =
            (warn',
             [FileRead file,
              HttpDo \<lparr>Method = ''POST'', URL = ''http://127.0.0.1:11435/api/generate'',
                      Header = [(''Content-Type'', ''application/json'')], Body = body\<rparr>]
             @ prints,
             w2) \<and>
          (\<forall>e \<in> set prints. \<exists>s. e = Stdout s)))"
proof (intro conjI impI)
  assume "length files = 20"
  then show "main env files w =
        (case loop env files False w of
           (warn, evs, w') \<Rightarrow> (0, GoStartOllama # evs @ [summary warn], w'))"
    by (simp add: main_def)
next
  let ?req = "\<lparr>Method = ''POST'', URL = ''http://127.0.0.1:11435/api/generate'',
                Header = [(''Content-Type'', ''application/json'')], Body = body\<rparr>"
  assume h: "HasSuffix file ''.go'' \<and>
       os_ReadFile env file w0 = (Inr content, w1) \<and>
       (RuneCountInString content = 8000 \<or>
        RuneCountInString content \<le> 8000 \<and> 8000 < length content) \<and>
       json_Marshal env
         \<lparr>Model = ''qwen2.5-coder:7b'',
          Prompt = ''File to check:'' @ NL @ ''Filename: '' @ file @ NL
                     @ ''Content:'' @ NL @ content,
          Format = ''json'', System = system_prompt, Stream = False\<rparr> = Inr body"
  then have c: "\<not> RuneCountInString content > 8000" by auto
  obtain r evq w2 where q: "queryLLM env file content w1 = (r, evq, w2)"
    by (cases "queryLLM env file content w1") auto
  from h q have q': "evq = [HttpDo ?req]"
    by (auto simp: queryLLM_def NewRequest_def Header_Add_def itoa_ollamaPort Let_def
             split: sum.splits prod.splits)
  obtain warn' evs w3 where b: "loop_body env file warn w0 = (warn', evs, w3)"
    by (cases "loop_body env file warn w0") auto
  from h c q q' b have "\<exists>prints. evs = [FileRead file, HttpDo ?req] @ prints \<and>
      (\<forall>e \<in> set prints. \<exists>s. e = Stdout s)"
    by (auto simp: loop_body_def split: sum.splits if_splits)
  with b show "\<exists>warn' prints w2.
          loop_body env file warn w0 = (warn', [FileRead file, HttpDo ?req] @ prints, w2) \<and>
          (\<forall>e \<in> set prints. \<exists>s. e = Stdout s)"
    by blast
qed

theorem limits_are_strict_witness:
  "length (replicate 18 ''README.md'' @ [''edge.go'', ''wide.go'']) = 20 \<and>
   RuneCountInString content_8000 = 8000 \<and>
   RuneCountInString content_wide = 4001 \<and> length content_wide = 8002 \<and>
   main mock (replicate 18 ''README.md'' @ [''edge.go'', ''wide.go''])
     \<lparr>disk = [(''edge.go'', content_8000), (''wide.go'', content_wide)],
      replies = [Inr (Inr body_pass), Inr (Inr body_pass)]\<rparr> =
     (0,
      [GoStartOllama,
       FileRead ''edge.go'',
       HttpDo \<lparr>Method = ''POST'', URL = ''http://127.0.0.1:11435/api/generate'',
               Header = [(''Content-Type'', ''application/json'')],
               Body = ''File to check:'' @ NL @ ''Filename: edge.go'' @ NL @ ''Content:'' @ NL
                        @ content_8000\<rparr>,
       FileRead ''wide.go'',
       HttpDo \<lparr>Method = ''POST'', URL = ''http://127.0.0.1:11435/api/generate'',
               Header = [(''Content-Type'', ''application/json'')],
               Body = ''File to check:'' @ NL @ ''Filename: wide.go'' @ NL @ ''Content:'' @ NL
                        @ content_wide\<rparr>,
       Stdout (''All checked files follow Golang best practices.'' @ NL)],
      \<lparr>disk = [(''edge.go'', content_8000), (''wide.go'', content_wide)], replies = []\<rparr>)"
proof -
  let ?d = "[(''edge.go'', content_8000), (''wide.go'', content_wide)]"
  let ?w = "\<lparr>disk = ?d, replies = [Inr (Inr body_pass), Inr (Inr body_pass)]\<rparr>"
  let ?w1 = "\<lparr>disk = ?d, replies = [Inr (Inr body_pass)]\<rparr>"
  let ?w2 = "\<lparr>disk = ?d, replies = []\<rparr>"
  let ?files = "replicate 18 ''README.md'' @ [''edge.go'', ''wide.go'']"
  let ?req = "\<lambda>name content.
     HttpDo \<lparr>Method = ''POST'', URL = ''http://127.0.0.1:11435/api/generate'',
             Header = [(''Content-Type'', ''application/json'')],
             Body = ''File to check:'' @ NL @ ''Filename: '' @ name @ NL @ ''Content:'' @ NL
                      @ content\<rparr>"
  have n: "length ?files = 20" by simp
  have l: "loop mock ?files False ?w =
      (False,
       [FileRead ''edge.go'', ?req ''edge.go'' content_8000,
        FileRead ''wide.go'', ?req ''wide.go'' content_wide],
       ?w2)"
    unfolding loop_skips_README by (simp add: mock_eval)
  have e: "HasSuffix ''edge.go'' ''.go'' \<and>
       os_ReadFile mock ''edge.go'' ?w = (Inr content_8000, ?w) \<and>
       (RuneCountInString content_8000 = 8000 \<or>
        RuneCountInString content_8000 \<le> 8000 \<and> 8000 < length content_8000) \<and>
       json_Marshal mock
         \<lparr>Model = ''qwen2.5-coder:7b'',
          Prompt = ''File to check:'' @ NL @ ''Filename: '' @ ''edge.go'' @ NL
                     @ ''Content:'' @ NL @ content_8000,
          Format = ''json'', System = system_prompt, Stream = False\<rparr> =
        Inr (''File to check:'' @ NL @ ''Filename: edge.go'' @ NL @ ''Content:'' @ NL
               @ content_8000)"
    by (simp add: mock_eval)
  note t = limits_are_strict [of ?files mock ?w "''edge.go''" ?w content_8000 ?w
     "''File to check:'' @ NL @ ''Filename: edge.go'' @ NL @ ''Content:'' @ NL @ content_8000"
     False]
  from t [THEN conjunct2, THEN mp, OF e] have sent: "\<exists>warn' prints w2.
      loop_body mock ''edge.go'' False ?w =
        (warn', [FileRead ''edge.go'', ?req ''edge.go'' content_8000] @ prints, w2) \<and>
      (\<forall>e \<in> set prints. \<exists>s. e = Stdout s)"
    by simp
  have e': "HasSuffix ''wide.go'' ''.go'' \<and>
       os_ReadFile mock ''wide.go'' ?w1 = (Inr content_wide, ?w1) \<and>
       (RuneCountInString content_wide = 8000 \<or>
        RuneCountInString content_wide \<le> 8000 \<and> 8000 < length content_wide) \<and>
       json_Marshal mock
         \<lparr>Model = ''qwen2.5-coder:7b'',
          Prompt = ''File to check:'' @ NL @ ''Filename: '' @ ''wide.go'' @ NL
                     @ ''Content:'' @ NL @ content_wide,
          Format = ''json'', System = system_prompt, Stream = False\<rparr> =
        Inr (''File to check:'' @ NL @ ''Filename: wide.go'' @ NL @ ''Content:'' @ NL
               @ content_wide)"
    by (simp add: mock_eval length_content_wide)
  from limits_are_strict [of ?files mock ?w "''wide.go''" ?w1 content_wide ?w1
     "''File to check:'' @ NL @ ''Filename: wide.go'' @ NL @ ''Content:'' @ NL @ content_wide"
     False, THEN conjunct2, THEN mp, OF e']
  have sent': "\<exists>warn' prints w2.
      loop_body mock ''wide.go'' False ?w1 =
        (warn', [FileRead ''wide.go'', ?req ''wide.go'' content_wide] @ prints, w2) \<and>
      (\<forall>e \<in> set prints. \<exists>s. e = Stdout s)"
    by simp
  from t n l have "main mock ?files ?w =
      (0,
       GoStartOllama #
         [FileRead ''edge.go'', ?req ''edge.go'' content_8000,
          FileRead ''wide.go'', ?req ''wide.go'' content_wide]
         @ [summary False],
       ?w2)"
    by simp
  then show ?thesis
    by (simp add: summary_def RuneCount_content_8000 RuneCount_content_wide length_content_wide)
qed

end
